theory Spec2Isabelle
  imports Main
begin

section \<open>Tors Community API: the store and its HTTP handlers (src/index.js)\<close>

text \<open>
  The program is one Express application over one SQLite database opened through
  better-sqlite3. Every handler runs synchronously from start to end, so a request is a
  function from the database before it to a response and the database after it.

  What belongs to the libraries and not to \<^verbatim>\<open>index.js\<close> is written out here once:
  \<^item> a bound parameter that is \<^verbatim>\<open>undefined\<close> or \<^verbatim>\<open>null\<close> reaches SQLite as NULL, and the
    \<^verbatim>\<open>NaN\<close> that \<^verbatim>\<open>parseInt\<close> yields for a non-numeric path segment is stored as NULL as well;
    a comparison \<^verbatim>\<open>id = NULL\<close> selects no row;
  \<^item> a statement that violates a constraint of the schema raises and changes nothing; the
    exception leaves the handler and Express answers with status 500;
  \<^item> an \<^verbatim>\<open>INTEGER PRIMARY KEY AUTOINCREMENT\<close> column takes, on insert, one more than the
    largest rowid the table has ever held (the counter kept in \<^verbatim>\<open>sqlite_sequence\<close>);
  \<^item> whether the foreign key declared on \<^verbatim>\<open>tasks.category_id\<close> (line 36) is enforced is a
    setting of the connection (\<^verbatim>\<open>PRAGMA foreign_keys\<close>); it is a field of the database
    state below. The SQLite build that better-sqlite3 ships turns it on by default
    (\<^verbatim>\<open>SQLITE_DEFAULT_FOREIGN_KEYS=1\<close>) and \<^verbatim>\<open>index.js\<close> never changes it;
  \<^item> the database is opened with \<^verbatim>\<open>verbose: console.log\<close> (line 9), so every statement a
    handler runs is printed before it executes; that output is the \<open>log\<close> field.

  Row ids are unbounded integers: the 64-bit ceiling of a rowid is out of reach of any
  run shorter than \<open>2^63\<close> inserts and is not modelled. Body fields carry the types of
  the data model: text for names, descriptions, etas and themes, an integer for
  \<^verbatim>\<open>categoryId\<close>.
\<close>

subsection \<open>Values arriving in a request\<close>

text \<open>A member of the JSON body after destructuring: absent, \<^verbatim>\<open>null\<close>, or a value.\<close>

datatype 'a field = Undefined | Null | Val 'a

text \<open>The JavaScript test \<^verbatim>\<open>!x\<close> on a text field: true for undefined, null and \<^verbatim>\<open>""\<close>.\<close>

fun falsy :: "string field \<Rightarrow> bool" where
  "falsy Undefined = True"
| "falsy Null = True"
| "falsy (Val s) = (s = [])"

text \<open>Binding a body field as a statement parameter: \<open>None\<close> is SQL NULL.\<close>

fun bind :: "'a field \<Rightarrow> 'a option" where
  "bind Undefined = None"
| "bind Null = None"
| "bind (Val v) = Some v"

text \<open>SQL \<^verbatim>\<open>COALESCE(?, column)\<close>.\<close>

fun coalesce :: "'a option \<Rightarrow> 'a \<Rightarrow> 'a" where
  "coalesce None old = old"
| "coalesce (Some v) old = v"

subsection \<open>The schema (lines 29-50)\<close>

record task =
  t_id :: int
  t_name :: string
  t_description :: string
  t_eta :: string
  t_category_id :: "int option"

record category =
  c_id :: int
  c_name :: string

record config_row =
  cfg_id :: int
  cfg_theme :: string

record db =
  tasks :: "task list"
  categories :: "category list"
  config :: "config_row list"
  tasks_seq :: int
  categories_seq :: int
  foreign_keys :: bool
  log :: "string list"

text \<open>A database file that does not exist yet: no table has a row, nothing was printed.\<close>

definition empty_db :: "bool \<Rightarrow> db" where
  "empty_db fk =
     \<lparr>tasks = [], categories = [], config = [], tasks_seq = 0, categories_seq = 0,
      foreign_keys = fk, log = []\<rparr>"

text \<open>
  The start-up script: the tables are created if missing, and
  \<^verbatim>\<open>INSERT OR IGNORE INTO config (id, theme) VALUES (1, 'Desert')\<close> adds the row unless a
  row with the primary key 1 is there already.
\<close>

definition initialize :: "db \<Rightarrow> db" where
  "initialize d =
     (if \<exists>r \<in> set (config d). cfg_id r = 1 then d
      else d\<lparr>config := config d @ [\<lparr>cfg_id = 1, cfg_theme = ''Desert''\<rparr>]\<rparr>)"

subsection \<open>Responses\<close>

datatype exn = SqliteError string | TypeError string

record task_view =
  v_id :: int
  v_name :: string
  v_description :: string
  v_eta :: string
  v_category :: "string option"

datatype body =
    Message string
  | TaskCreated string int
  | CategoryCreated string int
  | TaskRows "task_view list"
  | CategoryRows "category list"
  | CategoryName string
  | ThemeBody string
  | Uncaught exn

datatype response = Response (status: nat) (body: body)

subsection \<open>Statements\<close>

text \<open>\<^verbatim>\<open>verbose: console.log\<close>: the statement text is printed when it is run.\<close>

definition logged :: "string \<Rightarrow> db \<Rightarrow> db" where
  "logged sql d = d\<lparr>log := log d @ [sql]\<rparr>"

text \<open>\<^verbatim>\<open>SELECT * FROM tasks WHERE id = ?\<close> with \<^verbatim>\<open>.get\<close>: the first matching row.\<close>

definition select_task :: "db \<Rightarrow> int option \<Rightarrow> task option" where
  "select_task d i = (case i of None \<Rightarrow> None | Some k \<Rightarrow> find (\<lambda>t. t_id t = k) (tasks d))"

text \<open>\<^verbatim>\<open>SELECT * FROM categories WHERE id = ?\<close> with \<^verbatim>\<open>.get\<close>.\<close>

definition select_category :: "db \<Rightarrow> int option \<Rightarrow> category option" where
  "select_category d i =
     (case i of None \<Rightarrow> None | Some k \<Rightarrow> find (\<lambda>c. c_id c = k) (categories d))"

text \<open>The rowid an AUTOINCREMENT table gives its next row.\<close>

definition next_rowid :: "int \<Rightarrow> int list \<Rightarrow> int" where
  "next_rowid seq ids = max seq (fold max ids 0) + 1"

text \<open>\<^verbatim>\<open>INSERT INTO tasks (name, description, eta) VALUES (?, ?, ?)\<close>; a NULL in a
  \<^verbatim>\<open>NOT NULL\<close> column raises.\<close>

definition insert_task :: "string option \<Rightarrow> string option \<Rightarrow> string option \<Rightarrow> db \<Rightarrow> exn + (int \<times> db)" where
  "insert_task n ds e d =
     (case (n, ds, e) of
        (Some n', Some ds', Some e') \<Rightarrow>
          (let i = next_rowid (tasks_seq d) (map t_id (tasks d)) in
           Inr (i, d\<lparr>tasks := tasks d @
                        [\<lparr>t_id = i, t_name = n', t_description = ds', t_eta = e',
                          t_category_id = None\<rparr>],
                      tasks_seq := i\<rparr>))
      | _ \<Rightarrow> Inl (SqliteError ''NOT NULL constraint failed''))"

text \<open>\<^verbatim>\<open>INSERT INTO categories (name) VALUES (?)\<close>.\<close>

definition insert_category :: "string option \<Rightarrow> db \<Rightarrow> exn + (int \<times> db)" where
  "insert_category n d =
     (case n of
        Some n' \<Rightarrow>
          (let i = next_rowid (categories_seq d) (map c_id (categories d)) in
           Inr (i, d\<lparr>categories := categories d @ [\<lparr>c_id = i, c_name = n'\<rparr>],
                      categories_seq := i\<rparr>))
      | None \<Rightarrow> Inl (SqliteError ''NOT NULL constraint failed''))"

text \<open>The \<^verbatim>\<open>UPDATE tasks SET name = COALESCE(?, name), ... WHERE id = ?\<close> of lines 117-123.
  COALESCE never yields NULL here, the columns being \<^verbatim>\<open>NOT NULL\<close> already.\<close>

definition update_task :: "string option \<Rightarrow> string option \<Rightarrow> string option \<Rightarrow> int option \<Rightarrow> db \<Rightarrow> db" where
  "update_task n ds e i d =
     d\<lparr>tasks := map (\<lambda>t. if Some (t_id t) = i
                          then t\<lparr>t_name := coalesce n (t_name t),
                                 t_description := coalesce ds (t_description t),
                                 t_eta := coalesce e (t_eta t)\<rparr>
                          else t) (tasks d)\<rparr>"

text \<open>\<^verbatim>\<open>UPDATE categories SET name = ? WHERE id = ?\<close>: a NULL name raises when a row
  would receive it.\<close>

definition update_category :: "string option \<Rightarrow> int option \<Rightarrow> db \<Rightarrow> exn + db" where
  "update_category n i d =
     (case n of
        None \<Rightarrow>
          (if \<exists>c \<in> set (categories d). Some (c_id c) = i
           then Inl (SqliteError ''NOT NULL constraint failed'')
           else Inr d)
      | Some n' \<Rightarrow>
          Inr (d\<lparr>categories :=
                   map (\<lambda>c. if Some (c_id c) = i then c\<lparr>c_name := n'\<rparr> else c) (categories d)\<rparr>))"

text \<open>\<^verbatim>\<open>DELETE FROM tasks WHERE id = ?\<close>.\<close>

definition delete_task :: "int option \<Rightarrow> db \<Rightarrow> db" where
  "delete_task i d = d\<lparr>tasks := filter (\<lambda>t. Some (t_id t) \<noteq> i) (tasks d)\<rparr>"

text \<open>\<^verbatim>\<open>DELETE FROM categories WHERE id = ?\<close>. With foreign keys enforced the statement
  raises when a task still refers to a row it would delete (the constraint of line 36
  has no \<^verbatim>\<open>ON DELETE\<close> action).\<close>

definition delete_category :: "int option \<Rightarrow> db \<Rightarrow> exn + db" where
  "delete_category i d =
     (if foreign_keys d \<and> i \<noteq> None \<and>
         (\<exists>c \<in> set (categories d). Some (c_id c) = i) \<and>
         (\<exists>t \<in> set (tasks d). t_category_id t = i)
      then Inl (SqliteError ''FOREIGN KEY constraint failed'')
      else Inr (d\<lparr>categories := filter (\<lambda>c. Some (c_id c) \<noteq> i) (categories d)\<rparr>))"

text \<open>\<^verbatim>\<open>UPDATE tasks SET category_id = NULL WHERE category_id = ?\<close>; with a NULL parameter
  the comparison holds for no row.\<close>

definition null_out_category :: "int option \<Rightarrow> db \<Rightarrow> db" where
  "null_out_category i d =
     d\<lparr>tasks := map (\<lambda>t. if i \<noteq> None \<and> t_category_id t = i
                          then t\<lparr>t_category_id := None\<rparr> else t) (tasks d)\<rparr>"

text \<open>\<^verbatim>\<open>UPDATE tasks SET category_id = ? WHERE id = ?\<close>. With foreign keys enforced, a
  value that is no category's id raises when a row would receive it.\<close>

definition set_task_category :: "int option \<Rightarrow> int option \<Rightarrow> db \<Rightarrow> exn + db" where
  "set_task_category cid i d =
     (if foreign_keys d \<and> cid \<noteq> None \<and>
         (\<exists>t \<in> set (tasks d). Some (t_id t) = i) \<and>
         \<not> (\<exists>c \<in> set (categories d). Some (c_id c) = cid)
      then Inl (SqliteError ''FOREIGN KEY constraint failed'')
      else Inr (d\<lparr>tasks := map (\<lambda>t. if Some (t_id t) = i
                                     then t\<lparr>t_category_id := cid\<rparr> else t) (tasks d)\<rparr>))"

text \<open>\<^verbatim>\<open>UPDATE config SET theme = ? WHERE id = 1\<close>.\<close>

definition update_theme :: "string option \<Rightarrow> db \<Rightarrow> exn + db" where
  "update_theme th d =
     (case th of
        None \<Rightarrow>
          (if \<exists>r \<in> set (config d). cfg_id r = 1
           then Inl (SqliteError ''NOT NULL constraint failed'')
           else Inr d)
      | Some th' \<Rightarrow>
          Inr (d\<lparr>config := map (\<lambda>r. if cfg_id r = 1 then r\<lparr>cfg_theme := th'\<rparr> else r) (config d)\<rparr>))"

text \<open>\<^verbatim>\<open>SELECT theme FROM config WHERE id = 1\<close> with \<^verbatim>\<open>.get\<close>.\<close>

definition select_theme :: "db \<Rightarrow> config_row option" where
  "select_theme d = find (\<lambda>r. cfg_id r = 1) (config d)"

text \<open>The \<^verbatim>\<open>LEFT JOIN\<close> of lines 57-61: every task once per category with its
  \<^verbatim>\<open>category_id\<close>, and once with no category name when there is none.\<close>

definition join_task :: "category list \<Rightarrow> task \<Rightarrow> task_view list" where
  "join_task cs t =
     (let ms = filter (\<lambda>c. Some (c_id c) = t_category_id t) cs;
          row = (\<lambda>cn. \<lparr>v_id = t_id t, v_name = t_name t, v_description = t_description t,
                         v_eta = t_eta t, v_category = cn\<rparr>)
      in if ms = [] then [row None] else map (\<lambda>c. row (Some (c_name c))) ms)"

definition select_tasks_joined :: "db \<Rightarrow> task_view list" where
  "select_tasks_joined d = concat (map (join_task (categories d)) (tasks d))"

subsection \<open>The API-key middleware (lines 11-25)\<close>

text \<open>
  \<open>clientApiKey\<close> is the \<^verbatim>\<open>api-key\<close> header (\<open>None\<close> when the request has none),
  \<open>serverApiKey\<close> is \<^verbatim>\<open>process.env.API_KEY\<close> (\<open>None\<close> when unset). \<^verbatim>\<open>!serverApiKey\<close>
  holds for an unset and for an empty variable. The result \<open>None\<close> is the call of
  \<^verbatim>\<open>next()\<close>. The function has no database argument: the middleware never touches \<^verbatim>\<open>db\<close>.
\<close>

definition api_key_middleware :: "string option \<Rightarrow> string option \<Rightarrow> response option" where
  "api_key_middleware clientApiKey serverApiKey =
     (if serverApiKey = None \<or> serverApiKey = Some []
      then Some (Response 500 (Message ''Server configuration error.''))
      else if clientApiKey \<noteq> serverApiKey
      then Some (Response 403 (Message ''Forbidden: Invalid API Key.''))
      else None)"

subsection \<open>The route handlers\<close>

text \<open>The path parameter is the result of \<^verbatim>\<open>parseInt(req.params.id, 10)\<close>: \<open>None\<close> is
  \<^verbatim>\<open>NaN\<close>.\<close>

definition get_tasks :: "db \<Rightarrow> response \<times> db" where
  "get_tasks d =
     (let d1 = logged ''SELECT tasks.id, tasks.name, tasks.description, tasks.eta, categories.name AS category FROM tasks LEFT JOIN categories ON tasks.category_id = categories.id'' d
      in (Response 200 (TaskRows (select_tasks_joined d1)), d1))"

definition get_categories :: "db \<Rightarrow> response \<times> db" where
  "get_categories d =
     (let d1 = logged ''SELECT * FROM categories'' d
      in (Response 200 (CategoryRows (categories d1)), d1))"

definition get_category :: "int option \<Rightarrow> db \<Rightarrow> response \<times> db" where
  "get_category i d =
     (let d1 = logged ''SELECT name FROM categories WHERE id = ?'' d in
      case select_category d1 i of
        None \<Rightarrow> (Response 404 (Message ''Category not found.''), d1)
      | Some c \<Rightarrow> (Response 200 (CategoryName (c_name c)), d1))"

definition post_task :: "string field \<Rightarrow> string field \<Rightarrow> string field \<Rightarrow> db \<Rightarrow> response \<times> db" where
  "post_task name description eta d =
     (if falsy name \<or> falsy description \<or> falsy eta
      then (Response 400 (Message ''Missing required fields: name, description, eta.''), d)
      else
        let d1 = logged ''INSERT INTO tasks (name, description, eta) VALUES (?, ?, ?)'' d in
        case insert_task (bind name) (bind description) (bind eta) d1 of
          Inl e \<Rightarrow> (Response 500 (Uncaught e), d1)
        | Inr (i, d2) \<Rightarrow> (Response 201 (TaskCreated ''Task created successfully!'' i), d2))"

definition post_category :: "string field \<Rightarrow> db \<Rightarrow> response \<times> db" where
  "post_category name d =
     (if falsy name
      then (Response 400 (Message ''Category name is required.''), d)
      else
        let d1 = logged ''INSERT INTO categories (name) VALUES (?)'' d in
        case insert_category (bind name) d1 of
          Inl e \<Rightarrow> (Response 500 (Uncaught e), d1)
        | Inr (i, d2) \<Rightarrow> (Response 201 (CategoryCreated ''Category created successfully!'' i), d2))"

definition put_task :: "int option \<Rightarrow> string field \<Rightarrow> string field \<Rightarrow> string field \<Rightarrow> db \<Rightarrow> response \<times> db" where
  "put_task i name description eta d =
     (let d1 = logged ''SELECT * FROM tasks WHERE id = ?'' d in
      case select_task d1 i of
        None \<Rightarrow> (Response 404 (Message ''Task not found.''), d1)
      | Some task \<Rightarrow>
          let d2 = logged ''UPDATE tasks SET name = COALESCE(?, name), description = COALESCE(?, description), eta = COALESCE(?, eta) WHERE id = ?'' d1
          in (Response 200 (Message ''Task updated successfully!''),
              update_task (bind name) (bind description) (bind eta) i d2))"

definition put_category :: "int option \<Rightarrow> string field \<Rightarrow> db \<Rightarrow> response \<times> db" where
  "put_category i name d =
     (let d1 = logged ''SELECT * FROM categories WHERE id = ?'' d in
      case select_category d1 i of
        None \<Rightarrow> (Response 404 (Message ''Category not found.''), d1)
      | Some category \<Rightarrow>
          (let d2 = logged ''UPDATE categories SET name = ? WHERE id = ?'' d1 in
           (case update_category (bind name) i d2 of
              Inl e \<Rightarrow> (Response 500 (Uncaught e), d2)
            | Inr d3 \<Rightarrow> (Response 200 (Message ''Category updated successfully!''), d3))))"

definition delete_task_route :: "int option \<Rightarrow> db \<Rightarrow> response \<times> db" where
  "delete_task_route i d =
     (let d1 = logged ''SELECT * FROM tasks WHERE id = ?'' d in
      case select_task d1 i of
        None \<Rightarrow> (Response 404 (Message ''Task not found.''), d1)
      | Some task \<Rightarrow>
          let d2 = logged ''DELETE FROM tasks WHERE id = ?'' d1
          in (Response 200 (Message ''Task deleted successfully!''), delete_task i d2))"

definition delete_category_route :: "int option \<Rightarrow> db \<Rightarrow> response \<times> db" where
  "delete_category_route i d =
     (let d1 = logged ''SELECT * FROM categories WHERE id = ?'' d in
      case select_category d1 i of
        None \<Rightarrow> (Response 404 (Message ''Category not found.''), d1)
      | Some category \<Rightarrow>
          (let d2 = logged ''DELETE FROM categories WHERE id = ?'' d1 in
           (case delete_category i d2 of
              Inl e \<Rightarrow> (Response 500 (Uncaught e), d2)
            | Inr d3 \<Rightarrow>
                (let d4 = logged ''UPDATE tasks SET category_id = NULL WHERE category_id = ?'' d3
                 in (Response 200 (Message ''Category deleted successfully!''),
                     null_out_category i d4)))))"

definition assign_category :: "int option \<Rightarrow> int field \<Rightarrow> db \<Rightarrow> response \<times> db" where
  "assign_category taskId categoryId d =
     (let d1 = logged ''SELECT * FROM tasks WHERE id = ?'' d;
          task = select_task d1 taskId;
          d2 = logged ''SELECT * FROM categories WHERE id = ?'' d1;
          category = select_category d2 (bind categoryId)
      in if task = None then (Response 404 (Message ''Crud! Task not found.''), d2)
         else if category = None then (Response 404 (Message ''Category not found.''), d2)
         else
           let d3 = logged ''UPDATE tasks SET category_id = ? WHERE id = ?'' d2 in
           case set_task_category (bind categoryId) taskId d3 of
             Inl e \<Rightarrow> (Response 500 (Uncaught e), d3)
           | Inr d4 \<Rightarrow> (Response 200 (Message ''Aye aye, category assigned successfully!''), d4))"

definition validThemes :: "string list" where
  "validThemes = [''Desert'', ''Oasis'', ''Forest'', ''Snow'']"

text \<open>\<^verbatim>\<open>validThemes.includes(newTheme)\<close>: neither undefined nor null is an element.\<close>

fun array_includes :: "string list \<Rightarrow> string field \<Rightarrow> bool" where
  "array_includes xs (Val s) = (s \<in> set xs)"
| "array_includes xs _ = False"

text \<open>How a template literal prints the field.\<close>

fun template :: "string field \<Rightarrow> string" where
  "template (Val s) = s"
| "template Undefined = ''undefined''"
| "template Null = ''null''"

definition post_theme :: "string field \<Rightarrow> db \<Rightarrow> response \<times> db" where
  "post_theme newTheme d =
     (if \<not> array_includes validThemes newTheme
      then (Response 400 (Message ''Invalid theme.''), d)
      else
        let d1 = logged ''UPDATE config SET theme = ? WHERE id = 1'' d in
        case update_theme (bind newTheme) d1 of
          Inl e \<Rightarrow> (Response 500 (Uncaught e), d1)
        | Inr d2 \<Rightarrow>
            (Response 200 (Message (''Ahoy! Theme changed to '' @ template newTheme @ ''.'')), d2))"

text \<open>\<open>getTheme\<close> (lines 52-54) reads \<^verbatim>\<open>.theme\<close> of the row; without a row that is a
  property access on \<^verbatim>\<open>undefined\<close>.\<close>

definition getTheme :: "db \<Rightarrow> exn + string" where
  "getTheme d =
     (case select_theme d of
        None \<Rightarrow> Inl (TypeError ''Cannot read properties of undefined'')
      | Some r \<Rightarrow> Inr (cfg_theme r))"

definition get_theme :: "db \<Rightarrow> response \<times> db" where
  "get_theme d =
     (let d1 = logged ''SELECT theme FROM config WHERE id = 1'' d in
      case getTheme d1 of
        Inl e \<Rightarrow> (Response 500 (Uncaught e), d1)
      | Inr theme \<Rightarrow> (Response 200 (ThemeBody theme), d1))"

subsection \<open>The application\<close>

datatype route =
    GET_tasks
  | GET_categories
  | GET_category "int option"
  | POST_tasks "string field" "string field" "string field"
  | POST_categories "string field"
  | PUT_task "int option" "string field" "string field" "string field"
  | PUT_category "int option" "string field"
  | DELETE_task "int option"
  | DELETE_category "int option"
  | POST_assign_category "int option" "int field"
  | POST_theme "string field"
  | GET_theme

record request =
  api_key :: "string option"
  route :: route

fun dispatch :: "route \<Rightarrow> db \<Rightarrow> response \<times> db" where
  "dispatch GET_tasks d = get_tasks d"
| "dispatch GET_categories d = get_categories d"
| "dispatch (GET_category i) d = get_category i d"
| "dispatch (POST_tasks n ds e) d = post_task n ds e d"
| "dispatch (POST_categories n) d = post_category n d"
| "dispatch (PUT_task i n ds e) d = put_task i n ds e d"
| "dispatch (PUT_category i n) d = put_category i n d"
| "dispatch (DELETE_task i) d = delete_task_route i d"
| "dispatch (DELETE_category i) d = delete_category_route i d"
| "dispatch (POST_assign_category i c) d = assign_category i c d"
| "dispatch (POST_theme t) d = post_theme t d"
| "dispatch GET_theme d = get_theme d"

text \<open>One request through the middleware chain; \<open>env\<close> is \<^verbatim>\<open>process.env.API_KEY\<close>.\<close>

definition app :: "string option \<Rightarrow> request \<Rightarrow> db \<Rightarrow> response \<times> db" where
  "app env req d =
     (case api_key_middleware (api_key req) env of
        Some res \<Rightarrow> (res, d)
      | None \<Rightarrow> dispatch (route req) d)"

text \<open>The states the server can be in: a fresh database file after the start-up script,
  then any number of requests, and restarts of the process, each of which runs the
  start-up script again on the database as it is.\<close>

inductive reachable :: "string option \<Rightarrow> db \<Rightarrow> bool" for env :: "string option" where
  start: "reachable env (initialize (empty_db fk))"
| request: "reachable env d \<Longrightarrow> reachable env (snd (app env req d))"
| restart: "reachable env d \<Longrightarrow> reachable env (initialize d)"

text \<open>A run of the server: the responses to a list of requests, oldest first, and the
  database after them.\<close>

fun run :: "string option \<Rightarrow> request list \<Rightarrow> db \<Rightarrow> response list \<times> db" where
  "run env [] d = ([], d)"
| "run env (req # reqs) d =
     (let (res, d') = app env req d; (ress, d'') = run env reqs d'
      in (res # ress, d''))"

text \<open>The task ids that a list of responses handed out.\<close>

fun issued_task_ids :: "response list \<Rightarrow> int list" where
  "issued_task_ids [] = []"
| "issued_task_ids (Response st (TaskCreated m i) # rs) = i # issued_task_ids rs"
| "issued_task_ids (r # rs) = issued_task_ids rs"

text \<open>The tables and counters, without the console output.\<close>

definition same_store :: "db \<Rightarrow> db \<Rightarrow> bool" where
  "same_store d d' \<longleftrightarrow>
     tasks d' = tasks d \<and> categories d' = categories d \<and> config d' = config d \<and>
     tasks_seq d' = tasks_seq d \<and> categories_seq d' = categories_seq d \<and>
     foreign_keys d' = foreign_keys d"

subsection \<open>A small database for concrete runs\<close>

text \<open>Two tasks, the first filed under the only category; foreign keys enforced, as
  better-sqlite3 opens a database.\<close>

definition demo_db :: db where
  "demo_db =
     \<lparr>tasks = [\<lparr>t_id = 1, t_name = ''a'', t_description = ''b'', t_eta = ''c'',
                 t_category_id = Some 1\<rparr>,
               \<lparr>t_id = 2, t_name = ''x'', t_description = ''y'', t_eta = ''z'',
                 t_category_id = None\<rparr>],
      categories = [\<lparr>c_id = 1, c_name = ''home''\<rparr>],
      config = [\<lparr>cfg_id = 1, cfg_theme = ''Desert''\<rparr>],
      tasks_seq = 2, categories_seq = 1, foreign_keys = True, log = []\<rparr>"

definition with_key :: "route \<Rightarrow> request" where
  "with_key r = \<lparr>api_key = Some ''k'', route = r\<rparr>"

section \<open>Properties\<close>

subsection \<open>Printing a statement changes no table\<close>

lemma logged_fields:
  "tasks (logged s d) = tasks d" "categories (logged s d) = categories d"
  "config (logged s d) = config d" "tasks_seq (logged s d) = tasks_seq d"
  "categories_seq (logged s d) = categories_seq d"
  "foreign_keys (logged s d) = foreign_keys d"
  "log (logged s d) = log d @ [s]"
  by (simp_all add: logged_def)

lemma select_logged:
  "select_task (logged s d) i = select_task d i"
  "select_category (logged s d) i = select_category d i"
  "select_theme (logged s d) = select_theme d"
  by (simp_all add: select_task_def select_category_def select_theme_def logged_def
        split: option.splits)

lemma same_store_logged: "same_store d (logged s d)"
  by (simp add: same_store_def logged_fields)

lemma same_store_logged2: "same_store d (logged s (logged s' d))"
  by (simp add: same_store_def logged_fields)

lemma same_store_refl: "same_store d d"
  by (simp add: same_store_def)

subsection \<open>The API-key gate\<close>

text \<open>
  Claim C7. The shared-secret check runs before any store access. When the server-side
  secret is not configured (\<^verbatim>\<open>API_KEY\<close> unset or empty) the request is answered with 500;
  when it is configured and the \<^verbatim>\<open>api-key\<close> header differs from it (or is missing) the
  request is answered with 403. In both cases the database comes back as it was, its
  list of executed statements included: nothing was run against the store. Only a
  request with the matching key reaches its route handler.
\<close>

theorem api_key_gate:
  "(env = None \<or> env = Some [] \<longrightarrow>
      app env req d = (Response 500 (Message ''Server configuration error.''), d)) \<and>
   (env \<noteq> None \<and> env \<noteq> Some [] \<and> api_key req \<noteq> env \<longrightarrow>
      app env req d = (Response 403 (Message ''Forbidden: Invalid API Key.''), d)) \<and>
   (env \<noteq> None \<and> env \<noteq> Some [] \<and> api_key req = env \<longrightarrow>
      app env req d = dispatch (route req) d)"
  by (auto simp: app_def api_key_middleware_def)

theorem api_key_gate_witness:
  "app None (with_key (DELETE_task (Some 1))) demo_db =
     (Response 500 (Message ''Server configuration error.''), demo_db) \<and>
   app (Some ''s'') (with_key (DELETE_task (Some 1))) demo_db =
     (Response 403 (Message ''Forbidden: Invalid API Key.''), demo_db) \<and>
   app (Some ''k'') (with_key GET_categories) demo_db = dispatch GET_categories demo_db"
  using api_key_gate [of None "with_key (DELETE_task (Some 1))" demo_db]
    api_key_gate [of "Some ''s''" "with_key (DELETE_task (Some 1))" demo_db]
    api_key_gate [of "Some ''k''" "with_key GET_categories" demo_db]
  by (simp add: with_key_def)

subsection \<open>Deleting a task\<close>

lemma select_task_deleted: "select_task (delete_task i d) i = None"
  by (cases i) (simp_all add: select_task_def delete_task_def find_None_iff)

text \<open>
  Claim C9. \<open>deleteTask(id)\<close> answers 404 and leaves every table as it was when no task
  has the id. Otherwise it answers 200 and removes the task with that id and nothing
  else: the other tasks stay, in their order, and the categories, the config row and
  both id counters are unchanged.
\<close>

theorem delete_task_route_frame:
  "(select_task d i = None \<longrightarrow>
      fst (delete_task_route i d) = Response 404 (Message ''Task not found.'') \<and>
      same_store d (snd (delete_task_route i d))) \<and>
   (select_task d i \<noteq> None \<longrightarrow>
      fst (delete_task_route i d) = Response 200 (Message ''Task deleted successfully!'') \<and>
      tasks (snd (delete_task_route i d)) = filter (\<lambda>t. Some (t_id t) \<noteq> i) (tasks d) \<and>
      select_task (snd (delete_task_route i d)) i = None \<and>
      categories (snd (delete_task_route i d)) = categories d \<and>
      config (snd (delete_task_route i d)) = config d \<and>
      tasks_seq (snd (delete_task_route i d)) = tasks_seq d \<and>
      categories_seq (snd (delete_task_route i d)) = categories_seq d \<and>
      foreign_keys (snd (delete_task_route i d)) = foreign_keys d)"
proof (cases "select_task d i")
  case None
  then show ?thesis
    by (simp add: delete_task_route_def select_logged same_store_logged)
next
  case (Some t)
  have "select_task (delete_task i (logged s (logged s' d))) i = None" for s s'
    by (rule select_task_deleted)
  with Some show ?thesis
    by (simp add: delete_task_route_def select_logged logged_fields delete_task_def)
qed

theorem delete_task_route_frame_witness:
  "select_task demo_db (Some 7) = None \<and>
   fst (delete_task_route (Some 7) demo_db) = Response 404 (Message ''Task not found.'') \<and>
   same_store demo_db (snd (delete_task_route (Some 7) demo_db)) \<and>
   select_task demo_db (Some 1) \<noteq> None \<and>
   fst (delete_task_route (Some 1) demo_db) = Response 200 (Message ''Task deleted successfully!'') \<and>
   tasks (snd (delete_task_route (Some 1) demo_db)) =
     [\<lparr>t_id = 2, t_name = ''x'', t_description = ''y'', t_eta = ''z'', t_category_id = None\<rparr>] \<and>
   categories (snd (delete_task_route (Some 1) demo_db)) = categories demo_db"
proof -
  have absent: "select_task demo_db (Some 7) = None"
    by (simp add: select_task_def demo_db_def)
  have present: "select_task demo_db (Some 1) \<noteq> None"
    by (simp add: select_task_def demo_db_def)
  have rest: "filter (\<lambda>t. Some (t_id t) \<noteq> Some 1) (tasks demo_db) =
      [\<lparr>t_id = 2, t_name = ''x'', t_description = ''y'', t_eta = ''z'', t_category_id = None\<rparr>]"
    by (simp add: demo_db_def)
  show ?thesis
    using absent present rest
      delete_task_route_frame [of demo_db "Some 7"]
      delete_task_route_frame [of demo_db "Some 1"]
    by simp
qed

subsection \<open>Assigning a category\<close>

text \<open>
  Claim C10. When neither the task nor the category exists, \<open>assignCategory\<close> reports the
  missing task (\<^verbatim>\<open>Crud! Task not found.\<close>), not the missing category: the task is
  checked first.
\<close>

theorem assign_category_task_first:
  "select_task d taskId = None \<Longrightarrow> select_category d (bind categoryId) = None \<Longrightarrow>
   fst (assign_category taskId categoryId d) = Response 404 (Message ''Crud! Task not found.'') \<and>
   fst (assign_category taskId categoryId d) \<noteq> Response 404 (Message ''Category not found.'')"
  by (simp add: assign_category_def select_logged)

theorem assign_category_task_first_witness:
  "select_task demo_db (Some 9) = None \<and> select_category demo_db (bind (Val 8)) = None \<and>
   fst (assign_category (Some 9) (Val 8) demo_db) = Response 404 (Message ''Crud! Task not found.'')"
proof -
  have t: "select_task demo_db (Some 9) = None"
    by (simp add: select_task_def demo_db_def)
  have c: "select_category demo_db (bind (Val 8)) = None"
    by (simp add: select_category_def demo_db_def)
  show ?thesis
    using t c assign_category_task_first [OF t c] by simp
qed

subsection \<open>Updating a task\<close>

lemma coalesce_bind: "coalesce (bind f) old = (case f of Val s \<Rightarrow> s | _ \<Rightarrow> old)"
  by (cases f) simp_all

lemma find_map_same_key:
  assumes "\<And>x. P (g x) = P x"
  shows "find P (map g xs) = map_option g (find P xs)"
  using assms by (induction xs) simp_all

lemma select_task_Some_mem: "select_task d i = Some t \<Longrightarrow> t \<in> set (tasks d) \<and> Some (t_id t) = i"
  by (auto simp: select_task_def find_Some_iff split: option.splits)

lemma select_category_Some_mem:
  "select_category d i = Some c \<Longrightarrow> c \<in> set (categories d) \<and> Some (c_id c) = i"
  by (auto simp: select_category_def find_Some_iff split: option.splits)

lemma select_category_None_iff:
  "select_category d i = None \<longleftrightarrow> \<not> (\<exists>c \<in> set (categories d). Some (c_id c) = i)"
  by (cases i) (auto simp: select_category_def find_None_iff)

lemma select_task_None_iff:
  "select_task d i = None \<longleftrightarrow> \<not> (\<exists>t \<in> set (tasks d). Some (t_id t) = i)"
  by (cases i) (auto simp: select_task_def find_None_iff)

lemma select_task_updated:
  "select_task (update_task n ds e i d) j =
     map_option (\<lambda>t. if Some (t_id t) = i
                      then t\<lparr>t_name := coalesce n (t_name t),
                             t_description := coalesce ds (t_description t),
                             t_eta := coalesce e (t_eta t)\<rparr>
                      else t) (select_task d j)"
proof (cases j)
  case None
  then show ?thesis by (simp add: select_task_def)
next
  case (Some k)
  then show ?thesis
    by (simp add: select_task_def update_task_def find_map_same_key)
qed

text \<open>
  Claim C4. \<open>updateTask(id, partial)\<close> answers 404 and leaves every table as it was when
  no task has the id. Otherwise it answers 200 and the task keeps its id, its category
  and its place; each of name, description and eta takes the supplied text when one is
  supplied (the empty string is a supplied text) and keeps its prior value when the
  member is absent (or \<^verbatim>\<open>null\<close>). Every other task and every other table is unchanged.
\<close>

theorem put_task_partial:
  "(select_task d i = None \<longrightarrow>
      fst (put_task i name description eta d) = Response 404 (Message ''Task not found.'') \<and>
      same_store d (snd (put_task i name description eta d))) \<and>
   (\<forall>t. select_task d i = Some t \<longrightarrow>
      fst (put_task i name description eta d) = Response 200 (Message ''Task updated successfully!'') \<and>
      select_task (snd (put_task i name description eta d)) i =
        Some (t\<lparr>t_name := (case name of Val s \<Rightarrow> s | _ \<Rightarrow> t_name t),
                t_description := (case description of Val s \<Rightarrow> s | _ \<Rightarrow> t_description t),
                t_eta := (case eta of Val s \<Rightarrow> s | _ \<Rightarrow> t_eta t)\<rparr>) \<and>
      tasks (snd (put_task i name description eta d)) =
        map (\<lambda>u. if Some (t_id u) = i
                  then u\<lparr>t_name := (case name of Val s \<Rightarrow> s | _ \<Rightarrow> t_name u),
                         t_description := (case description of Val s \<Rightarrow> s | _ \<Rightarrow> t_description u),
                         t_eta := (case eta of Val s \<Rightarrow> s | _ \<Rightarrow> t_eta u)\<rparr>
                  else u) (tasks d) \<and>
      categories (snd (put_task i name description eta d)) = categories d \<and>
      config (snd (put_task i name description eta d)) = config d \<and>
      tasks_seq (snd (put_task i name description eta d)) = tasks_seq d \<and>
      categories_seq (snd (put_task i name description eta d)) = categories_seq d \<and>
      foreign_keys (snd (put_task i name description eta d)) = foreign_keys d)"
proof (cases "select_task d i")
  case None
  then show ?thesis
    by (simp add: put_task_def select_logged same_store_logged)
next
  case (Some t)
  then have key: "Some (t_id t) = i"
    by (simp add: select_task_Some_mem)
  have sel: "select_task (update_task (bind name) (bind description) (bind eta) i (logged s (logged s' d))) i =
      Some (t\<lparr>t_name := (case name of Val s \<Rightarrow> s | _ \<Rightarrow> t_name t),
              t_description := (case description of Val s \<Rightarrow> s | _ \<Rightarrow> t_description t),
              t_eta := (case eta of Val s \<Rightarrow> s | _ \<Rightarrow> t_eta t)\<rparr>)" for s s'
    using Some key by (simp add: select_task_updated select_logged coalesce_bind)
  have tbl: "tasks (update_task (bind name) (bind description) (bind eta) i (logged s (logged s' d))) =
      map (\<lambda>u. if Some (t_id u) = i
                then u\<lparr>t_name := (case name of Val s \<Rightarrow> s | _ \<Rightarrow> t_name u),
                       t_description := (case description of Val s \<Rightarrow> s | _ \<Rightarrow> t_description u),
                       t_eta := (case eta of Val s \<Rightarrow> s | _ \<Rightarrow> t_eta u)\<rparr>
                else u) (tasks d)" for s s'
    by (simp add: update_task_def logged_fields coalesce_bind)
  have others: "categories (update_task n' ds' e' i (logged s (logged s' d))) = categories d"
    "config (update_task n' ds' e' i (logged s (logged s' d))) = config d"
    "tasks_seq (update_task n' ds' e' i (logged s (logged s' d))) = tasks_seq d"
    "categories_seq (update_task n' ds' e' i (logged s (logged s' d))) = categories_seq d"
    "foreign_keys (update_task n' ds' e' i (logged s (logged s' d))) = foreign_keys d"
    for n' ds' e' s s'
    by (simp_all add: update_task_def logged_fields)
  show ?thesis
    using Some by (simp add: put_task_def select_logged sel tbl others)
qed


theorem put_task_partial_witness:
  "select_task demo_db (Some 7) = None \<and>
   fst (put_task (Some 7) Undefined Undefined (Val ''tomorrow'') demo_db) =
     Response 404 (Message ''Task not found.'') \<and>
   select_task demo_db (Some 1) =
     Some \<lparr>t_id = 1, t_name = ''a'', t_description = ''b'', t_eta = ''c'', t_category_id = Some 1\<rparr> \<and>
   select_task (snd (put_task (Some 1) Undefined (Val []) (Val ''tomorrow'') demo_db)) (Some 1) =
     Some \<lparr>t_id = 1, t_name = ''a'', t_description = [], t_eta = ''tomorrow'',
           t_category_id = Some 1\<rparr>"
proof -
  have absent: "select_task demo_db (Some 7) = None"
    by (simp add: select_task_def demo_db_def)
  have present: "select_task demo_db (Some 1) =
      Some \<lparr>t_id = 1, t_name = ''a'', t_description = ''b'', t_eta = ''c'', t_category_id = Some 1\<rparr>"
    by (simp add: select_task_def demo_db_def)
  show ?thesis
    using absent present
      put_task_partial [of demo_db "Some 7" Undefined Undefined "Val ''tomorrow''"]
      put_task_partial [of demo_db "Some 1" Undefined "Val []" "Val ''tomorrow''"]
    by simp
qed

subsection \<open>Renaming a category\<close>

text \<open>
  The claim C8 as the specification states it says that an update with an absent name
  succeeds with 200. On the category of \<open>demo_db\<close> it does not: the absent name is bound
  as NULL, the \<^verbatim>\<open>NOT NULL\<close> constraint of \<^verbatim>\<open>categories.name\<close> (line 41) rejects the
  statement, the answer is 500 and the category keeps its name.
\<close>

theorem put_category_absent_name_counterexample:
  "select_category demo_db (Some 1) = Some \<lparr>c_id = 1, c_name = ''home''\<rparr> \<and>
   fst (put_category (Some 1) Undefined demo_db) =
     Response 500 (Uncaught (SqliteError ''NOT NULL constraint failed'')) \<and>
   status (fst (put_category (Some 1) Undefined demo_db)) \<noteq> 200 \<and>
   categories (snd (put_category (Some 1) Undefined demo_db)) = [\<lparr>c_id = 1, c_name = ''home''\<rparr>]"
  by (simp add: put_category_def select_category_def update_category_def logged_def demo_db_def)

text \<open>
  Claim C8, amended. \<open>updateCategory(id, name)\<close> answers 404 and leaves every table as it
  was when no category has the id. When one has and the name is a text, the name is set
  without any validation, the empty text included, and the answer is 200. When one has
  and the name is absent or \<^verbatim>\<open>null\<close>, the \<^verbatim>\<open>NOT NULL\<close> constraint rejects the update: the
  answer is 500 and every table is as it was.
\<close>

theorem put_category_lax:
  "(select_category d i = None \<longrightarrow>
      fst (put_category i name d) = Response 404 (Message ''Category not found.'') \<and>
      same_store d (snd (put_category i name d))) \<and>
   (select_category d i \<noteq> None \<longrightarrow>
      (\<forall>s. name = Val s \<longrightarrow>
         fst (put_category i name d) = Response 200 (Message ''Category updated successfully!'') \<and>
         categories (snd (put_category i name d)) =
           map (\<lambda>c. if Some (c_id c) = i then c\<lparr>c_name := s\<rparr> else c) (categories d) \<and>
         tasks (snd (put_category i name d)) = tasks d \<and>
         config (snd (put_category i name d)) = config d) \<and>
      (name = Undefined \<or> name = Null \<longrightarrow>
         fst (put_category i name d) =
           Response 500 (Uncaught (SqliteError ''NOT NULL constraint failed'')) \<and>
         same_store d (snd (put_category i name d))))"
proof (cases "select_category d i")
  case None
  then show ?thesis
    by (simp add: put_category_def select_logged same_store_logged)
next
  case (Some c)
  then have ex: "\<exists>c \<in> set (categories d). Some (c_id c) = i"
    using select_category_Some_mem by blast
  show ?thesis
  proof (cases name)
    case Undefined
    with Some ex show ?thesis
      by (simp add: put_category_def select_logged update_category_def logged_fields
          same_store_logged2)
  next
    case Null
    with Some ex show ?thesis
      by (simp add: put_category_def select_logged update_category_def logged_fields
          same_store_logged2)
  next
    case (Val s)
    with Some show ?thesis
      by (simp add: put_category_def select_logged update_category_def logged_fields)
  qed
qed

theorem put_category_lax_witness:
  "select_category demo_db (Some 5) = None \<and>
   fst (put_category (Some 5) (Val ''work'') demo_db) = Response 404 (Message ''Category not found.'') \<and>
   select_category demo_db (Some 1) \<noteq> None \<and>
   fst (put_category (Some 1) (Val []) demo_db) = Response 200 (Message ''Category updated successfully!'') \<and>
   categories (snd (put_category (Some 1) (Val []) demo_db)) = [\<lparr>c_id = 1, c_name = []\<rparr>] \<and>
   fst (put_category (Some 1) Null demo_db) =
     Response 500 (Uncaught (SqliteError ''NOT NULL constraint failed'')) \<and>
   same_store demo_db (snd (put_category (Some 1) Null demo_db))"
proof -
  have absent: "select_category demo_db (Some 5) = None"
    by (simp add: select_category_def demo_db_def)
  have present: "select_category demo_db (Some 1) \<noteq> None"
    by (simp add: select_category_def demo_db_def)
  have renamed: "map (\<lambda>c. if Some (c_id c) = Some 1 then c\<lparr>c_name := []\<rparr> else c) (categories demo_db) =
      [\<lparr>c_id = 1, c_name = []\<rparr>]"
    by (simp add: demo_db_def)
  show ?thesis
    using absent present renamed
      put_category_lax [of demo_db "Some 5" "Val ''work''"]
      put_category_lax [of demo_db "Some 1" "Val []"]
      put_category_lax [of demo_db "Some 1" Null]
    by simp
qed

subsection \<open>Assigning a category: both checks, and where a reference can come from\<close>

lemma set_task_category_ok:
  assumes "select_category d cid = Some c"
  shows "set_task_category cid i d =
    Inr (d\<lparr>tasks := map (\<lambda>t. if Some (t_id t) = i then t\<lparr>t_category_id := Some (c_id c)\<rparr> else t) (tasks d)\<rparr>)"
proof -
  from assms have "c \<in> set (categories d)" and "Some (c_id c) = cid"
    by (simp_all add: select_category_Some_mem)
  then show ?thesis
    by (auto simp: set_task_category_def)
qed

lemma assign_category_cases:
  "(select_task d taskId = None \<longrightarrow>
      fst (assign_category taskId categoryId d) = Response 404 (Message ''Crud! Task not found.'') \<and>
      same_store d (snd (assign_category taskId categoryId d))) \<and>
   (select_task d taskId \<noteq> None \<and> select_category d (bind categoryId) = None \<longrightarrow>
      fst (assign_category taskId categoryId d) = Response 404 (Message ''Category not found.'') \<and>
      same_store d (snd (assign_category taskId categoryId d))) \<and>
   (\<forall>c. select_task d taskId \<noteq> None \<and> select_category d (bind categoryId) = Some c \<longrightarrow>
      fst (assign_category taskId categoryId d) =
        Response 200 (Message ''Aye aye, category assigned successfully!'') \<and>
      categoryId = Val (c_id c) \<and>
      tasks (snd (assign_category taskId categoryId d)) =
        map (\<lambda>u. if Some (t_id u) = taskId then u\<lparr>t_category_id := Some (c_id c)\<rparr> else u) (tasks d) \<and>
      categories (snd (assign_category taskId categoryId d)) = categories d \<and>
      c \<in> set (categories (snd (assign_category taskId categoryId d))) \<and>
      config (snd (assign_category taskId categoryId d)) = config d \<and>
      tasks_seq (snd (assign_category taskId categoryId d)) = tasks_seq d \<and>
      categories_seq (snd (assign_category taskId categoryId d)) = categories_seq d \<and>
      foreign_keys (snd (assign_category taskId categoryId d)) = foreign_keys d)"
proof (cases "select_task d taskId")
  case None
  then show ?thesis
    by (simp add: assign_category_def select_logged same_store_logged2)
next
  case task: (Some t)
  show ?thesis
  proof (cases "select_category d (bind categoryId)")
    case None
    with task show ?thesis
      by (simp add: assign_category_def select_logged same_store_logged2)
  next
    case (Some c)
    then have mem: "c \<in> set (categories d)" and key: "Some (c_id c) = bind categoryId"
      by (simp_all add: select_category_Some_mem)
    from key have val: "categoryId = Val (c_id c)"
      by (cases categoryId) simp_all
    have "select_category (logged s3 (logged s2 (logged s1 d))) (Some (c_id c)) = Some c"
      for s1 s2 s3
      using Some val by (simp add: select_logged)
    then have upd: "set_task_category (Some (c_id c)) taskId (logged s3 (logged s2 (logged s1 d))) =
        Inr ((logged s3 (logged s2 (logged s1 d)))
          \<lparr>tasks := map (\<lambda>t. if Some (t_id t) = taskId then t\<lparr>t_category_id := Some (c_id c)\<rparr> else t)
             (tasks d)\<rparr>)" for s1 s2 s3
      using set_task_category_ok [of "logged s3 (logged s2 (logged s1 d))" "Some (c_id c)" c taskId]
      by (simp add: logged_fields)
    show ?thesis
      using task Some mem val
      by (simp add: assign_category_def select_logged upd logged_fields)
  qed
qed


text \<open>What each route does to the \<open>tasks\<close> table, as far as the category references go.\<close>

lemma origin_unchanged:
  assumes "tasks d' = tasks d"
  shows "u' \<in> set (tasks d') \<Longrightarrow> t_category_id u' = Some k \<Longrightarrow>
    (\<exists>u \<in> set (tasks d). t_id u = t_id u' \<and> t_category_id u = Some k) \<or>
    (\<exists>c \<in> set (categories d'). c_id c = k)"
  using assms by auto

lemma tasks_get_tasks: "tasks (snd (get_tasks d)) = tasks d"
  by (simp add: get_tasks_def logged_fields Let_def)

lemma tasks_get_categories: "tasks (snd (get_categories d)) = tasks d"
  by (simp add: get_categories_def logged_fields Let_def)

lemma tasks_get_category: "tasks (snd (get_category i d)) = tasks d"
  by (simp add: get_category_def logged_fields Let_def split: option.splits)

lemma tasks_post_category: "tasks (snd (post_category n d)) = tasks d"
  by (simp add: post_category_def insert_category_def logged_fields Let_def split: option.splits)

lemma tasks_put_category: "tasks (snd (put_category i n d)) = tasks d"
  by (simp add: put_category_def update_category_def logged_fields Let_def split: option.splits)

lemma tasks_post_theme: "tasks (snd (post_theme t d)) = tasks d"
  by (simp add: post_theme_def update_theme_def logged_fields Let_def split: option.splits)

lemma tasks_get_theme: "tasks (snd (get_theme d)) = tasks d"
  by (simp add: get_theme_def logged_fields Let_def split: sum.splits)

lemma tasks_post_task:
  "tasks (snd (post_task n ds e d)) = tasks d \<or>
   (\<exists>t. tasks (snd (post_task n ds e d)) = tasks d @ [t] \<and> t_category_id t = None)"
  by (simp add: post_task_def insert_task_def logged_fields Let_def split: option.splits)

lemma tasks_put_task:
  "\<exists>f. tasks (snd (put_task i n ds e d)) = map f (tasks d) \<and>
       (\<forall>u. t_id (f u) = t_id u \<and> t_category_id (f u) = t_category_id u)"
proof (cases "select_task d i")
  case None
  then have "tasks (snd (put_task i n ds e d)) = map (\<lambda>u. u) (tasks d)"
    by (simp add: put_task_def select_logged logged_fields)
  then show ?thesis by blast
next
  case (Some t)
  let ?f = "\<lambda>t. if Some (t_id t) = i
                          then t\<lparr>t_name := coalesce (bind n) (t_name t),
                                 t_description := coalesce (bind ds) (t_description t),
                                 t_eta := coalesce (bind e) (t_eta t)\<rparr>
                          else t"
  from Some have "tasks (snd (put_task i n ds e d)) = map ?f (tasks d)"
    by (simp add: put_task_def select_logged logged_fields update_task_def)
  moreover have "\<forall>u. t_id (?f u) = t_id u \<and> t_category_id (?f u) = t_category_id u"
    by simp
  ultimately show ?thesis by blast
qed

lemma tasks_delete_task_route: "set (tasks (snd (delete_task_route i d))) \<subseteq> set (tasks d)"
  by (auto simp: delete_task_route_def delete_task_def logged_fields select_logged Let_def
      split: option.splits)

lemma tasks_delete_category_route:
  "\<exists>f. tasks (snd (delete_category_route i d)) = map f (tasks d) \<and>
       (\<forall>u. t_id (f u) = t_id u \<and>
            (t_category_id (f u) = t_category_id u \<or> t_category_id (f u) = None))"
proof -
  let ?f = "\<lambda>t. if i \<noteq> None \<and> t_category_id t = i then t\<lparr>t_category_id := None\<rparr> else t"
  have "tasks (snd (delete_category_route i d)) = map (\<lambda>u. u) (tasks d) \<or>
        tasks (snd (delete_category_route i d)) = map ?f (tasks d)"
    by (simp add: delete_category_route_def delete_category_def null_out_category_def
        logged_fields select_logged Let_def split: option.splits)
  moreover have "\<forall>u. t_id (?f u) = t_id u \<and>
            (t_category_id (?f u) = t_category_id u \<or> t_category_id (?f u) = None)"
    by simp
  ultimately show ?thesis by blast
qed

lemma origin_map:
  assumes tbl: "tasks d' = map f (tasks d)"
    and ids: "\<And>u. t_id (f u) = t_id u"
    and cats: "\<And>u. t_category_id (f u) = t_category_id u \<or> t_category_id (f u) = None \<or>
             (\<exists>c \<in> set (categories d'). t_category_id (f u) = Some (c_id c))"
    and mem: "u' \<in> set (tasks d')" and k: "t_category_id u' = Some k"
  shows "(\<exists>u \<in> set (tasks d). t_id u = t_id u' \<and> t_category_id u = Some k) \<or>
    (\<exists>c \<in> set (categories d'). c_id c = k)"
proof -
  from mem tbl obtain u where u: "u \<in> set (tasks d)" and u': "u' = f u"
    by auto
  from cats [of u] ids [of u] u u' k show ?thesis by auto
qed

lemma assign_category_miss:
  assumes "select_task d i = None \<or> select_category d (bind cid) = None"
  shows "same_store d (snd (assign_category i cid d))"
proof (cases "select_task d i")
  case None
  then show ?thesis using assign_category_cases [of d i cid] by simp
next
  case (Some t)
  with assms have "select_category d (bind cid) = None" by simp
  with Some show ?thesis using assign_category_cases [of d i cid] by simp
qed

lemma assign_category_hit:
  assumes "select_task d i \<noteq> None" and "select_category d (bind cid) = Some c"
  shows "tasks (snd (assign_category i cid d)) =
      map (\<lambda>u. if Some (t_id u) = i then u\<lparr>t_category_id := Some (c_id c)\<rparr> else u) (tasks d)"
    and "c \<in> set (categories (snd (assign_category i cid d)))"
  using assms assign_category_cases [of d i cid] by auto

lemma tasks_assign_category:
  "\<exists>f. tasks (snd (assign_category i cid d)) = map f (tasks d) \<and>
       (\<forall>u. t_id (f u) = t_id u \<and>
            (t_category_id (f u) = t_category_id u \<or> t_category_id (f u) = None \<or>
             (\<exists>c \<in> set (categories (snd (assign_category i cid d))).
                 t_category_id (f u) = Some (c_id c))))"
proof (cases "select_task d i = None \<or> select_category d (bind cid) = None")
  case True
  then have "same_store d (snd (assign_category i cid d))"
    by (rule assign_category_miss)
  then have "tasks (snd (assign_category i cid d)) = map (\<lambda>u. u) (tasks d)"
    by (simp add: same_store_def)
  then show ?thesis by blast
next
  case False
  then obtain c where t: "select_task d i \<noteq> None" and c: "select_category d (bind cid) = Some c"
    by auto
  let ?f = "\<lambda>u. if Some (t_id u) = i then u\<lparr>t_category_id := Some (c_id c)\<rparr> else u"
  have tbl: "tasks (snd (assign_category i cid d)) = map ?f (tasks d)"
    and mem: "c \<in> set (categories (snd (assign_category i cid d)))"
    using assign_category_hit [OF t c] by simp_all
  from mem have "\<forall>u. t_id (?f u) = t_id u \<and>
            (t_category_id (?f u) = t_category_id u \<or> t_category_id (?f u) = None \<or>
             (\<exists>c \<in> set (categories (snd (assign_category i cid d))).
                 t_category_id (?f u) = Some (c_id c)))"
    by auto
  with tbl show ?thesis by blast
qed

lemma dispatch_category_origin:
  assumes "u' \<in> set (tasks (snd (dispatch rt d)))" and "t_category_id u' = Some k"
  shows "(\<exists>u \<in> set (tasks d). t_id u = t_id u' \<and> t_category_id u = Some k) \<or>
         (\<exists>c \<in> set (categories (snd (dispatch rt d))). c_id c = k)"
proof (cases rt)
  case GET_tasks
  with assms show ?thesis using origin_unchanged [OF tasks_get_tasks] by simp
next
  case GET_categories
  with assms show ?thesis using origin_unchanged [OF tasks_get_categories] by simp
next
  case (GET_category i)
  with assms show ?thesis using origin_unchanged [OF tasks_get_category] by simp
next
  case (POST_tasks n ds e)
  with assms tasks_post_task [of n ds e d] show ?thesis by auto
next
  case (POST_categories n)
  with assms show ?thesis using origin_unchanged [OF tasks_post_category] by simp
next
  case (PUT_task i n ds e)
  obtain f where tbl: "tasks (snd (put_task i n ds e d)) = map f (tasks d)"
    and f: "\<forall>u. t_id (f u) = t_id u \<and> t_category_id (f u) = t_category_id u"
    using tasks_put_task by blast
  from assms PUT_task have mem: "u' \<in> set (tasks (snd (put_task i n ds e d)))"
    by simp
  have "(\<exists>u \<in> set (tasks d). t_id u = t_id u' \<and> t_category_id u = Some k) \<or>
      (\<exists>c \<in> set (categories (snd (put_task i n ds e d))). c_id c = k)"
    using f by (intro origin_map [OF tbl _ _ mem assms(2)]) auto
  with PUT_task show ?thesis by simp
next
  case (PUT_category i n)
  with assms show ?thesis using origin_unchanged [OF tasks_put_category] by simp
next
  case (DELETE_task i)
  with assms tasks_delete_task_route [of i d] show ?thesis by auto
next
  case (DELETE_category i)
  obtain f where tbl: "tasks (snd (delete_category_route i d)) = map f (tasks d)"
    and f: "\<forall>u. t_id (f u) = t_id u \<and>
            (t_category_id (f u) = t_category_id u \<or> t_category_id (f u) = None)"
    using tasks_delete_category_route by blast
  from assms DELETE_category have mem: "u' \<in> set (tasks (snd (delete_category_route i d)))"
    by simp
  have "(\<exists>u \<in> set (tasks d). t_id u = t_id u' \<and> t_category_id u = Some k) \<or>
      (\<exists>c \<in> set (categories (snd (delete_category_route i d))). c_id c = k)"
    using f by (intro origin_map [OF tbl _ _ mem assms(2)]) auto
  with DELETE_category show ?thesis by simp
next
  case (POST_assign_category i cid)
  obtain f where tbl: "tasks (snd (assign_category i cid d)) = map f (tasks d)"
    and f: "\<forall>u. t_id (f u) = t_id u \<and>
            (t_category_id (f u) = t_category_id u \<or> t_category_id (f u) = None \<or>
             (\<exists>c \<in> set (categories (snd (assign_category i cid d))).
                 t_category_id (f u) = Some (c_id c)))"
    using tasks_assign_category by blast
  from assms POST_assign_category have mem: "u' \<in> set (tasks (snd (assign_category i cid d)))"
    by simp
  have "(\<exists>u \<in> set (tasks d). t_id u = t_id u' \<and> t_category_id u = Some k) \<or>
      (\<exists>c \<in> set (categories (snd (assign_category i cid d))). c_id c = k)"
    using f by (intro origin_map [OF tbl _ _ mem assms(2)]) auto
  with POST_assign_category show ?thesis by simp
next
  case (POST_theme t)
  with assms show ?thesis using origin_unchanged [OF tasks_post_theme] by simp
next
  case GET_theme
  with assms show ?thesis using origin_unchanged [OF tasks_get_theme] by simp
qed


text \<open>
  Claim C5. \<open>assignCategory(taskId, categoryId)\<close> answers 404 (\<^verbatim>\<open>Crud! Task not found.\<close>)
  when the task is absent and 404 (\<^verbatim>\<open>Category not found.\<close>) when the task exists and the
  category is absent; in both cases every table, the task's \<open>category_id\<close> with it, is as
  it was. When both exist it answers 200 and sets the \<open>category_id\<close> of that task to
  \<open>categoryId\<close>, the id of a category that is in the table at that moment, and changes
  nothing else. And over all routes: a task that carries a non-null \<open>category_id\<close> after a
  request either carried the same one before it, or the id is that of a category
  existing after the request.
\<close>

theorem assign_category_checked:
  "(select_task d taskId = None \<longrightarrow>
      fst (assign_category taskId categoryId d) = Response 404 (Message ''Crud! Task not found.'') \<and>
      same_store d (snd (assign_category taskId categoryId d))) \<and>
   (select_task d taskId \<noteq> None \<and> select_category d (bind categoryId) = None \<longrightarrow>
      fst (assign_category taskId categoryId d) = Response 404 (Message ''Category not found.'') \<and>
      same_store d (snd (assign_category taskId categoryId d))) \<and>
   (\<forall>c. select_task d taskId \<noteq> None \<and> select_category d (bind categoryId) = Some c \<longrightarrow>
      fst (assign_category taskId categoryId d) =
        Response 200 (Message ''Aye aye, category assigned successfully!'') \<and>
      categoryId = Val (c_id c) \<and>
      tasks (snd (assign_category taskId categoryId d)) =
        map (\<lambda>u. if Some (t_id u) = taskId then u\<lparr>t_category_id := Some (c_id c)\<rparr> else u) (tasks d) \<and>
      categories (snd (assign_category taskId categoryId d)) = categories d \<and>
      c \<in> set (categories (snd (assign_category taskId categoryId d))) \<and>
      config (snd (assign_category taskId categoryId d)) = config d \<and>
      tasks_seq (snd (assign_category taskId categoryId d)) = tasks_seq d \<and>
      categories_seq (snd (assign_category taskId categoryId d)) = categories_seq d \<and>
      foreign_keys (snd (assign_category taskId categoryId d)) = foreign_keys d) \<and>
   (\<forall>u' \<in> set (tasks (snd (dispatch rt d0))). \<forall>k. t_category_id u' = Some k \<longrightarrow>
      (\<exists>u \<in> set (tasks d0). t_id u = t_id u' \<and> t_category_id u = Some k) \<or>
      (\<exists>c \<in> set (categories (snd (dispatch rt d0))). c_id c = k))"
proof -
  have origin: "\<forall>u' \<in> set (tasks (snd (dispatch rt d0))). \<forall>k. t_category_id u' = Some k \<longrightarrow>
      (\<exists>u \<in> set (tasks d0). t_id u = t_id u' \<and> t_category_id u = Some k) \<or>
      (\<exists>c \<in> set (categories (snd (dispatch rt d0))). c_id c = k)"
    using dispatch_category_origin [of _ rt d0] by blast
  note cases = assign_category_cases [of d taskId categoryId]
  show ?thesis
    by (rule conjI [OF cases [THEN conjunct1]
          conjI [OF cases [THEN conjunct2, THEN conjunct1]
            conjI [OF cases [THEN conjunct2, THEN conjunct2] origin]]])
qed

theorem assign_category_checked_witness:
  "select_task demo_db (Some 9) = None \<and>
   fst (assign_category (Some 9) (Val 1) demo_db) = Response 404 (Message ''Crud! Task not found.'') \<and>
   same_store demo_db (snd (assign_category (Some 9) (Val 1) demo_db)) \<and>
   select_task demo_db (Some 2) \<noteq> None \<and> select_category demo_db (bind (Val 5)) = None \<and>
   fst (assign_category (Some 2) (Val 5) demo_db) = Response 404 (Message ''Category not found.'') \<and>
   same_store demo_db (snd (assign_category (Some 2) (Val 5) demo_db)) \<and>
   select_category demo_db (bind (Val 1)) = Some \<lparr>c_id = 1, c_name = ''home''\<rparr> \<and>
   fst (assign_category (Some 2) (Val 1) demo_db) =
     Response 200 (Message ''Aye aye, category assigned successfully!'') \<and>
   tasks (snd (assign_category (Some 2) (Val 1) demo_db)) =
     [\<lparr>t_id = 1, t_name = ''a'', t_description = ''b'', t_eta = ''c'', t_category_id = Some 1\<rparr>,
      \<lparr>t_id = 2, t_name = ''x'', t_description = ''y'', t_eta = ''z'', t_category_id = Some 1\<rparr>] \<and>
   \<lparr>t_id = 2, t_name = ''x'', t_description = ''y'', t_eta = ''z'', t_category_id = Some 1\<rparr>
     \<in> set (tasks (snd (dispatch (POST_assign_category (Some 2) (Val 1)) demo_db))) \<and>
   ((\<exists>u \<in> set (tasks demo_db). t_id u = 2 \<and> t_category_id u = Some 1) \<or>
    (\<exists>c \<in> set (categories (snd (dispatch (POST_assign_category (Some 2) (Val 1)) demo_db))).
       c_id c = 1))"
proof -
  have no_task: "select_task demo_db (Some 9) = None"
    by (simp add: select_task_def demo_db_def)
  have task: "select_task demo_db (Some 2) \<noteq> None"
    by (simp add: select_task_def demo_db_def)
  have no_cat: "select_category demo_db (bind (Val 5)) = None"
    by (simp add: select_category_def demo_db_def)
  have cat: "select_category demo_db (bind (Val 1)) = Some \<lparr>c_id = 1, c_name = ''home''\<rparr>"
    by (simp add: select_category_def demo_db_def)
  note miss_task = assign_category_checked [of demo_db "Some 9" "Val 1", THEN conjunct1, rule_format]
  note miss_cat = assign_category_checked [of demo_db "Some 2" "Val 5",
      THEN conjunct2, THEN conjunct1, rule_format]
  note hit = assign_category_checked [of demo_db "Some 2" "Val 1",
      THEN conjunct2, THEN conjunct2, THEN conjunct1, rule_format]
  have a: "fst (assign_category (Some 9) (Val 1) demo_db) =
        Response 404 (Message ''Crud! Task not found.'') \<and>
      same_store demo_db (snd (assign_category (Some 9) (Val 1) demo_db))"
    using miss_task [OF no_task] .
  have b: "fst (assign_category (Some 2) (Val 5) demo_db) =
        Response 404 (Message ''Category not found.'') \<and>
      same_store demo_db (snd (assign_category (Some 2) (Val 5) demo_db))"
    using miss_cat [OF conjI [OF task no_cat]] .
  have c: "fst (assign_category (Some 2) (Val 1) demo_db) =
        Response 200 (Message ''Aye aye, category assigned successfully!'')"
    and tbl: "tasks (snd (assign_category (Some 2) (Val 1) demo_db)) =
     [\<lparr>t_id = 1, t_name = ''a'', t_description = ''b'', t_eta = ''c'', t_category_id = Some 1\<rparr>,
      \<lparr>t_id = 2, t_name = ''x'', t_description = ''y'', t_eta = ''z'', t_category_id = Some 1\<rparr>]"
    and cats: "categories (snd (assign_category (Some 2) (Val 1) demo_db)) =
      [\<lparr>c_id = 1, c_name = ''home''\<rparr>]"
    using hit [OF conjI [OF task cat]] by (simp_all add: demo_db_def)
  from tbl have mem:
    "\<lparr>t_id = 2, t_name = ''x'', t_description = ''y'', t_eta = ''z'', t_category_id = Some 1\<rparr>
       \<in> set (tasks (snd (dispatch (POST_assign_category (Some 2) (Val 1)) demo_db)))"
    by simp
  note origin = assign_category_checked [of demo_db "Some 2" "Val 1"
      "POST_assign_category (Some 2) (Val 1)" demo_db,
      THEN conjunct2, THEN conjunct2, THEN conjunct2, rule_format]
  have ex: "(\<exists>u \<in> set (tasks demo_db). t_id u = 2 \<and> t_category_id u = Some 1) \<or>
    (\<exists>c \<in> set (categories (snd (dispatch (POST_assign_category (Some 2) (Val 1)) demo_db))).
       c_id c = 1)"
    using origin [OF mem] by simp
  show ?thesis
    using no_task task no_cat cat a b c tbl mem ex by blast
qed

subsection \<open>The config row\<close>

lemma config_handlers:
  "config (snd (get_tasks d)) = config d"
  "config (snd (get_categories d)) = config d"
  "config (snd (get_category i d)) = config d"
  "config (snd (post_task n ds e d)) = config d"
  "config (snd (post_category n d)) = config d"
  "config (snd (put_task i n ds e d)) = config d"
  "config (snd (put_category i n d)) = config d"
  "config (snd (delete_task_route i d)) = config d"
  "config (snd (delete_category_route i d)) = config d"
  "config (snd (assign_category i c d)) = config d"
  "config (snd (get_theme d)) = config d"
  by (simp_all add: get_tasks_def get_categories_def get_category_def post_task_def
      post_category_def put_task_def put_category_def delete_task_route_def
      delete_category_route_def assign_category_def get_theme_def
      insert_task_def insert_category_def update_task_def update_category_def delete_task_def
      delete_category_def null_out_category_def set_task_category_def
      logged_fields Let_def split: option.splits sum.splits)

lemma config_post_theme:
  "config (snd (post_theme t d)) =
     (case t of
        Val s \<Rightarrow> if s \<in> set validThemes
                 then map (\<lambda>r. if cfg_id r = 1 then r\<lparr>cfg_theme := s\<rparr> else r) (config d)
                 else config d
      | _ \<Rightarrow> config d)"
  by (cases t) (simp_all add: post_theme_def update_theme_def logged_fields Let_def)

lemma config_ids_dispatch: "map cfg_id (config (snd (dispatch rt d))) = map cfg_id (config d)"
proof (cases rt)
  case (POST_theme t)
  have "map cfg_id (map (\<lambda>r. if cfg_id r = 1 then r\<lparr>cfg_theme := s\<rparr> else r) (config d)) =
      map cfg_id (config d)" for s
    by (induction "config d") (simp_all add: comp_def)
  with POST_theme show ?thesis
    by (simp add: config_post_theme split: field.splits)
qed (simp_all add: config_handlers)

lemma config_ids_app: "map cfg_id (config (snd (app env req d))) = map cfg_id (config d)"
  by (simp add: app_def config_ids_dispatch split: option.splits)

lemma config_single_dispatch:
  assumes "\<exists>th \<in> set validThemes. config d = [\<lparr>cfg_id = 1, cfg_theme = th\<rparr>]"
  shows "\<exists>th \<in> set validThemes. config (snd (dispatch rt d)) = [\<lparr>cfg_id = 1, cfg_theme = th\<rparr>]"
proof (cases rt)
  case (POST_theme t)
  with assms show ?thesis
    by (auto simp: config_post_theme split: field.splits)
qed (simp_all add: config_handlers assms)

lemma config_single_start:
  "\<exists>th \<in> set validThemes. config (initialize (empty_db fk)) = [\<lparr>cfg_id = 1, cfg_theme = th\<rparr>]"
  by (simp add: initialize_def empty_db_def validThemes_def)

lemma reachable_config_single:
  "reachable env d \<Longrightarrow> \<exists>th \<in> set validThemes. config d = [\<lparr>cfg_id = 1, cfg_theme = th\<rparr>]"
proof (induction rule: reachable.induct)
  case (start fk)
  show ?case by (rule config_single_start)
next
  case (request d req)
  then show ?case
    by (cases "api_key_middleware (api_key req) env")
       (simp_all add: app_def config_single_dispatch)
next
  case (restart d)
  then have "initialize d = d"
    by (auto simp: initialize_def)
  with restart show ?case by simp
qed

text \<open>
  Claim C2. In every state reachable from initialization the \<open>config\<close> table has exactly
  one row, its id is 1 and its theme is one of Desert, Oasis, Forest, Snow. No request
  inserts or deletes a config row: the ids of the rows are the same list before and
  after any request, in any database. And \<open>setTheme(t)\<close> with \<open>t\<close> outside the set
  (absent and \<^verbatim>\<open>null\<close> included) answers 400 and returns the database as it was.
\<close>

theorem config_singleton:
  "(reachable env d \<longrightarrow>
      (\<exists>th \<in> set validThemes. config d = [\<lparr>cfg_id = 1, cfg_theme = th\<rparr>])) \<and>
   map cfg_id (config (snd (app env req d0))) = map cfg_id (config d0) \<and>
   (\<not> array_includes validThemes t \<longrightarrow>
      post_theme t d1 = (Response 400 (Message ''Invalid theme.''), d1))"
  by (simp add: reachable_config_single config_ids_app post_theme_def)

theorem config_singleton_witness:
  "reachable (Some ''k'')
     (snd (app (Some ''k'') (with_key (POST_theme (Val ''Forest''))) (initialize (empty_db True)))) \<and>
   (\<exists>th \<in> set validThemes.
      config (snd (app (Some ''k'') (with_key (POST_theme (Val ''Forest'')))
                (initialize (empty_db True)))) = [\<lparr>cfg_id = 1, cfg_theme = th\<rparr>]) \<and>
   config (snd (app (Some ''k'') (with_key (POST_theme (Val ''Forest'')))
                (initialize (empty_db True)))) = [\<lparr>cfg_id = 1, cfg_theme = ''Forest''\<rparr>] \<and>
   \<not> array_includes validThemes (Val ''Purple'') \<and>
   post_theme (Val ''Purple'') demo_db = (Response 400 (Message ''Invalid theme.''), demo_db) \<and>
   cfg_theme (hd (config (snd (post_theme (Val ''Purple'') demo_db)))) = ''Desert''"
proof -
  let ?d = "snd (app (Some ''k'') (with_key (POST_theme (Val ''Forest''))) (initialize (empty_db True)))"
  have r: "reachable (Some ''k'') ?d"
    by (rule reachable.request [OF reachable.start])
  have one: "\<exists>th \<in> set validThemes. config ?d = [\<lparr>cfg_id = 1, cfg_theme = th\<rparr>]"
    using config_singleton [of "Some ''k''" ?d, THEN conjunct1, rule_format, OF r] .
  have forest: "config ?d = [\<lparr>cfg_id = 1, cfg_theme = ''Forest''\<rparr>]"
    by (simp add: app_def api_key_middleware_def with_key_def config_post_theme validThemes_def
        initialize_def empty_db_def)
  have purple: "\<not> array_includes validThemes (Val ''Purple'')"
    by (simp add: validThemes_def)
  have rejected: "post_theme (Val ''Purple'') demo_db = (Response 400 (Message ''Invalid theme.''), demo_db)"
    using config_singleton [of "Some ''k''" demo_db "with_key GET_theme" demo_db "Val ''Purple''" demo_db,
        THEN conjunct2, THEN conjunct2, rule_format, OF purple] .
  have kept: "cfg_theme (hd (config (snd (post_theme (Val ''Purple'') demo_db)))) = ''Desert''"
    by (simp add: rejected) (simp add: demo_db_def)
  from r one forest purple rejected kept show ?thesis by blast
qed

text \<open>
  Claim C6. For every theme \<open>t\<close> of the set, in a reachable state, \<open>setTheme(t)\<close> answers
  200 and the \<open>getTheme()\<close> that follows returns exactly \<open>t\<close>.
\<close>

theorem theme_round_trip:
  "reachable env d \<Longrightarrow> t \<in> set validThemes \<Longrightarrow>
   fst (post_theme (Val t) d) = Response 200 (Message (''Ahoy! Theme changed to '' @ t @ ''.'')) \<and>
   getTheme (snd (post_theme (Val t) d)) = Inr t \<and>
   fst (get_theme (snd (post_theme (Val t) d))) = Response 200 (ThemeBody t)"
proof -
  assume "reachable env d" and t: "t \<in> set validThemes"
  then obtain th where cfg: "config d = [\<lparr>cfg_id = 1, cfg_theme = th\<rparr>]"
    using reachable_config_single by blast
  from t have res: "fst (post_theme (Val t) d) =
      Response 200 (Message (''Ahoy! Theme changed to '' @ t @ ''.''))"
    by (simp add: post_theme_def update_theme_def Let_def)
  from t cfg have after: "config (snd (post_theme (Val t) d)) = [\<lparr>cfg_id = 1, cfg_theme = t\<rparr>]"
    by (simp add: config_post_theme)
  then have get: "getTheme (snd (post_theme (Val t) d)) = Inr t"
    by (simp add: getTheme_def select_theme_def)
  from after have "getTheme (logged s (snd (post_theme (Val t) d))) = Inr t" for s
    by (simp add: getTheme_def select_theme_def logged_fields)
  then have "fst (get_theme (snd (post_theme (Val t) d))) = Response 200 (ThemeBody t)"
    by (simp add: get_theme_def Let_def)
  with res get show ?thesis by simp
qed

theorem theme_round_trip_witness:
  "reachable (Some ''k'') (initialize (empty_db True)) \<and> ''Forest'' \<in> set validThemes \<and>
   fst (post_theme (Val ''Forest'') (initialize (empty_db True))) =
     Response 200 (Message ''Ahoy! Theme changed to Forest.'') \<and>
   fst (get_theme (snd (post_theme (Val ''Forest'') (initialize (empty_db True))))) =
     Response 200 (ThemeBody ''Forest'')"
proof -
  have r: "reachable (Some ''k'') (initialize (empty_db True))"
    by (rule reachable.start)
  have t: "''Forest'' \<in> set validThemes"
    by (simp add: validThemes_def)
  show ?thesis
    using r t theme_round_trip [OF r t] by simp
qed

subsection \<open>Creating a task\<close>

lemma fold_max_ge_init: "a \<le> fold max xs (a::int)"
proof (induction xs arbitrary: a)
  case Nil
  show ?case by simp
next
  case (Cons x xs)
  have "a \<le> max x a" by simp
  also have "\<dots> \<le> fold max xs (max x a)" by (rule Cons.IH)
  finally show ?case by simp
qed

lemma fold_max_ge_elem: "x \<in> set xs \<Longrightarrow> x \<le> fold max xs (a::int)"
proof (induction xs arbitrary: a)
  case Nil
  then show ?case by simp
next
  case (Cons y ys)
  show ?case
  proof (cases "x = y")
    case True
    have "x \<le> max y a" using True by simp
    also have "\<dots> \<le> fold max ys (max y a)" by (rule fold_max_ge_init)
    finally show ?thesis by simp
  next
    case False
    with Cons.prems have "x \<in> set ys" by simp
    then show ?thesis by (simp add: Cons.IH)
  qed
qed

lemma next_rowid_fresh: "next_rowid seq ids \<notin> set ids"
proof
  assume "next_rowid seq ids \<in> set ids"
  then have "next_rowid seq ids \<le> fold max ids 0" by (rule fold_max_ge_elem)
  then show False by (simp add: next_rowid_def)
qed

lemma next_rowid_above: "seq < next_rowid seq ids"
  by (simp add: next_rowid_def)

lemma not_falsy_iff: "\<not> falsy f \<longleftrightarrow> (\<exists>s. f = Val s \<and> s \<noteq> [])"
  by (cases f) simp_all

lemma post_task_created:
  assumes "n \<noteq> []" "ds \<noteq> []" "e \<noteq> []"
  shows "post_task (Val n) (Val ds) (Val e) d =
    (Response 201 (TaskCreated ''Task created successfully!''
        (next_rowid (tasks_seq d) (map t_id (tasks d)))),
     (logged ''INSERT INTO tasks (name, description, eta) VALUES (?, ?, ?)'' d)
       \<lparr>tasks := tasks d @
          [\<lparr>t_id = next_rowid (tasks_seq d) (map t_id (tasks d)), t_name = n,
            t_description = ds, t_eta = e, t_category_id = None\<rparr>],
        tasks_seq := next_rowid (tasks_seq d) (map t_id (tasks d))\<rparr>)"
  using assms by (simp add: post_task_def insert_task_def logged_fields Let_def)

lemma post_task_rejected:
  "falsy n \<or> falsy ds \<or> falsy e \<Longrightarrow>
   post_task n ds e d =
     (Response 400 (Message ''Missing required fields: name, description, eta.''), d)"
  by (simp add: post_task_def)

lemma tasks_seq_handlers:
  "tasks_seq (snd (get_tasks d)) = tasks_seq d"
  "tasks_seq (snd (get_categories d)) = tasks_seq d"
  "tasks_seq (snd (get_category i d)) = tasks_seq d"
  "tasks_seq (snd (post_category n d)) = tasks_seq d"
  "tasks_seq (snd (put_task i n ds e d)) = tasks_seq d"
  "tasks_seq (snd (put_category i n d)) = tasks_seq d"
  "tasks_seq (snd (delete_task_route i d)) = tasks_seq d"
  "tasks_seq (snd (delete_category_route i d)) = tasks_seq d"
  "tasks_seq (snd (assign_category i c d)) = tasks_seq d"
  "tasks_seq (snd (post_theme t d)) = tasks_seq d"
  "tasks_seq (snd (get_theme d)) = tasks_seq d"
  by (simp_all add: get_tasks_def get_categories_def get_category_def
      post_category_def put_task_def put_category_def delete_task_route_def
      delete_category_route_def assign_category_def get_theme_def post_theme_def
      insert_category_def update_task_def update_category_def delete_task_def
      delete_category_def null_out_category_def set_task_category_def update_theme_def
      logged_fields Let_def split: option.splits sum.splits)

lemma no_issue_handlers:
  "fst (get_tasks d) \<noteq> Response st (TaskCreated m k)"
  "fst (get_categories d) \<noteq> Response st (TaskCreated m k)"
  "fst (get_category i d) \<noteq> Response st (TaskCreated m k)"
  "fst (post_category n d) \<noteq> Response st (TaskCreated m k)"
  "fst (put_task i n ds e d) \<noteq> Response st (TaskCreated m k)"
  "fst (put_category i n d) \<noteq> Response st (TaskCreated m k)"
  "fst (delete_task_route i d) \<noteq> Response st (TaskCreated m k)"
  "fst (delete_category_route i d) \<noteq> Response st (TaskCreated m k)"
  "fst (assign_category i c d) \<noteq> Response st (TaskCreated m k)"
  "fst (post_theme t d) \<noteq> Response st (TaskCreated m k)"
  "fst (get_theme d) \<noteq> Response st (TaskCreated m k)"
  by (simp_all add: get_tasks_def get_categories_def get_category_def
      post_category_def put_task_def put_category_def delete_task_route_def
      delete_category_route_def assign_category_def get_theme_def post_theme_def
      Let_def split: option.splits sum.splits)

lemma post_task_seq:
  "tasks_seq d \<le> tasks_seq (snd (post_task n ds e d)) \<and>
   (fst (post_task n ds e d) = Response st (TaskCreated m k) \<longrightarrow>
      tasks_seq d < k \<and> tasks_seq (snd (post_task n ds e d)) = k)"
proof (cases "falsy n \<or> falsy ds \<or> falsy e")
  case True
  then show ?thesis by (simp add: post_task_rejected)
next
  case False
  then obtain a b c where "n = Val a" "ds = Val b" "e = Val c" "a \<noteq> []" "b \<noteq> []" "c \<noteq> []"
    by (auto simp: not_falsy_iff)
  then show ?thesis
    using next_rowid_above [of "tasks_seq d" "map t_id (tasks d)"]
    by (auto simp: post_task_created)
qed

lemma dispatch_seq:
  "tasks_seq d \<le> tasks_seq (snd (dispatch rt d)) \<and>
   (fst (dispatch rt d) = Response st (TaskCreated m k) \<longrightarrow>
      tasks_seq d < k \<and> tasks_seq (snd (dispatch rt d)) = k)"
proof (cases rt)
  case (POST_tasks n ds e)
  then show ?thesis using post_task_seq [of d n ds e st m k] by simp
qed (simp_all add: tasks_seq_handlers no_issue_handlers)

lemma app_seq:
  "tasks_seq d \<le> tasks_seq (snd (app env req d)) \<and>
   (fst (app env req d) = Response st (TaskCreated m k) \<longrightarrow>
      tasks_seq d < k \<and> tasks_seq (snd (app env req d)) = k)"
proof (cases "api_key_middleware (api_key req) env")
  case None
  then show ?thesis using dispatch_seq [of d "route req" st m k] by (simp add: app_def)
next
  case (Some res)
  then have "res = Response 500 (Message ''Server configuration error.'') \<or>
      res = Response 403 (Message ''Forbidden: Invalid API Key.'')"
    by (auto simp: api_key_middleware_def split: if_splits)
  with Some show ?thesis by (auto simp: app_def)
qed

lemma run_issued:
  "distinct (issued_task_ids (fst (run env reqs d))) \<and>
   (\<forall>k \<in> set (issued_task_ids (fst (run env reqs d))). tasks_seq d < k)"
proof (induction reqs arbitrary: d)
  case Nil
  show ?case by simp
next
  case (Cons req reqs)
  obtain res d' where step: "app env req d = (res, d')"
    by (cases "app env req d")
  obtain ress d'' where rest: "run env reqs d' = (ress, d'')"
    by (cases "run env reqs d'")
  from Cons.IH [of d'] rest have ih: "distinct (issued_task_ids ress)"
    "\<forall>k \<in> set (issued_task_ids ress). tasks_seq d' < k"
    by simp_all
  from step have mono: "tasks_seq d \<le> tasks_seq d'"
    using app_seq [of d env req] by simp
  have run: "fst (run env (req # reqs) d) = res # ress"
    by (simp add: step rest)
  show ?case
  proof (cases "\<exists>st m k. res = Response st (TaskCreated m k)")
    case True
    then obtain st m k where res: "res = Response st (TaskCreated m k)"
      by blast
    with step have "tasks_seq d < k" and "tasks_seq d' = k"
      using app_seq [of d env req st m k] by simp_all
    with ih res run show ?thesis by auto
  next
    case False
    then have "issued_task_ids (res # ress) = issued_task_ids ress"
      by (cases "(res # ress)" rule: issued_task_ids.cases) auto
    with ih mono run show ?thesis by auto
  qed
qed


text \<open>
  Claim C3. \<open>createTask(name, description, eta)\<close> answers 400 and returns the database as
  it was (no row inserted) whenever one of the three members is missing, \<^verbatim>\<open>null\<close> or the
  empty string. When all three are non-empty texts it answers 201 with a generated id,
  appends exactly one task carrying the three texts and a null \<open>category_id\<close>, and changes
  no other table. The id is that of no task in the table and lies above the counter of
  ids handed out so far; over any run of requests from any database, the ids handed out
  are pairwise distinct and all above the counter the run started with.
\<close>

theorem post_task_validated:
  "(name \<in> {Undefined, Null, Val []} \<or> description \<in> {Undefined, Null, Val []} \<or>
    eta \<in> {Undefined, Null, Val []} \<longrightarrow>
      post_task name description eta d =
        (Response 400 (Message ''Missing required fields: name, description, eta.''), d)) \<and>
   (\<forall>n ds e. name = Val n \<and> description = Val ds \<and> eta = Val e \<and>
       n \<noteq> [] \<and> ds \<noteq> [] \<and> e \<noteq> [] \<longrightarrow>
      (\<exists>i. fst (post_task name description eta d) =
             Response 201 (TaskCreated ''Task created successfully!'' i) \<and>
           tasks (snd (post_task name description eta d)) =
             tasks d @ [\<lparr>t_id = i, t_name = n, t_description = ds, t_eta = e,
                         t_category_id = None\<rparr>] \<and>
           i \<notin> t_id ` set (tasks d) \<and>
           tasks_seq d < i \<and>
           tasks_seq (snd (post_task name description eta d)) = i \<and>
           categories (snd (post_task name description eta d)) = categories d \<and>
           config (snd (post_task name description eta d)) = config d \<and>
           categories_seq (snd (post_task name description eta d)) = categories_seq d \<and>
           foreign_keys (snd (post_task name description eta d)) = foreign_keys d)) \<and>
   distinct (issued_task_ids (fst (run env reqs d0))) \<and>
   (\<forall>k \<in> set (issued_task_ids (fst (run env reqs d0))). tasks_seq d0 < k)"
proof -
  have reject: "name \<in> {Undefined, Null, Val []} \<or> description \<in> {Undefined, Null, Val []} \<or>
    eta \<in> {Undefined, Null, Val []} \<longrightarrow>
      post_task name description eta d =
        (Response 400 (Message ''Missing required fields: name, description, eta.''), d)"
  proof
    assume "name \<in> {Undefined, Null, Val []} \<or> description \<in> {Undefined, Null, Val []} \<or>
      eta \<in> {Undefined, Null, Val []}"
    then have "falsy name \<or> falsy description \<or> falsy eta"
      by auto
    then show "post_task name description eta d =
        (Response 400 (Message ''Missing required fields: name, description, eta.''), d)"
      by (rule post_task_rejected)
  qed
  have create: "\<forall>n ds e. name = Val n \<and> description = Val ds \<and> eta = Val e \<and>
       n \<noteq> [] \<and> ds \<noteq> [] \<and> e \<noteq> [] \<longrightarrow>
      (\<exists>i. fst (post_task name description eta d) =
             Response 201 (TaskCreated ''Task created successfully!'' i) \<and>
           tasks (snd (post_task name description eta d)) =
             tasks d @ [\<lparr>t_id = i, t_name = n, t_description = ds, t_eta = e,
                         t_category_id = None\<rparr>] \<and>
           i \<notin> t_id ` set (tasks d) \<and>
           tasks_seq d < i \<and>
           tasks_seq (snd (post_task name description eta d)) = i \<and>
           categories (snd (post_task name description eta d)) = categories d \<and>
           config (snd (post_task name description eta d)) = config d \<and>
           categories_seq (snd (post_task name description eta d)) = categories_seq d \<and>
           foreign_keys (snd (post_task name description eta d)) = foreign_keys d)"
  proof (intro allI impI)
    fix n ds e
    assume a: "name = Val n \<and> description = Val ds \<and> eta = Val e \<and>
       n \<noteq> [] \<and> ds \<noteq> [] \<and> e \<noteq> []"
    let ?i = "next_rowid (tasks_seq d) (map t_id (tasks d))"
    have fresh: "?i \<notin> t_id ` set (tasks d)"
      using next_rowid_fresh [of "tasks_seq d" "map t_id (tasks d)"] by simp
    have above: "tasks_seq d < ?i"
      by (rule next_rowid_above)
    from a have "post_task name description eta d =
      (Response 201 (TaskCreated ''Task created successfully!'' ?i),
       (logged ''INSERT INTO tasks (name, description, eta) VALUES (?, ?, ?)'' d)
         \<lparr>tasks := tasks d @
            [\<lparr>t_id = ?i, t_name = n, t_description = ds, t_eta = e, t_category_id = None\<rparr>],
          tasks_seq := ?i\<rparr>)"
      by (simp add: post_task_created)
    with fresh above show "\<exists>i. fst (post_task name description eta d) =
             Response 201 (TaskCreated ''Task created successfully!'' i) \<and>
           tasks (snd (post_task name description eta d)) =
             tasks d @ [\<lparr>t_id = i, t_name = n, t_description = ds, t_eta = e,
                         t_category_id = None\<rparr>] \<and>
           i \<notin> t_id ` set (tasks d) \<and>
           tasks_seq d < i \<and>
           tasks_seq (snd (post_task name description eta d)) = i \<and>
           categories (snd (post_task name description eta d)) = categories d \<and>
           config (snd (post_task name description eta d)) = config d \<and>
           categories_seq (snd (post_task name description eta d)) = categories_seq d \<and>
           foreign_keys (snd (post_task name description eta d)) = foreign_keys d"
      by (intro exI [of _ ?i]) (simp add: logged_fields)
  qed
  note issued = run_issued [of env reqs d0]
  show ?thesis
    by (rule conjI [OF reject conjI [OF create issued]])
qed

theorem post_task_validated_witness:
  "Undefined \<in> {Undefined, Null, Val ([] :: string)} \<and>
   post_task (Val ''n'') Undefined (Val ''e'') demo_db =
     (Response 400 (Message ''Missing required fields: name, description, eta.''), demo_db) \<and>
   fst (post_task (Val ''n'') (Val ''d'') (Val ''e'') demo_db) =
     Response 201 (TaskCreated ''Task created successfully!'' 3) \<and>
   tasks (snd (post_task (Val ''n'') (Val ''d'') (Val ''e'') demo_db)) =
     tasks demo_db @ [\<lparr>t_id = 3, t_name = ''n'', t_description = ''d'', t_eta = ''e'',
                        t_category_id = None\<rparr>] \<and>
   issued_task_ids (fst (run (Some ''k'')
       [with_key (POST_tasks (Val ''a'') (Val ''b'') (Val ''c'')),
        with_key (DELETE_task (Some 1)),
        with_key (POST_tasks (Val ''a'') (Val ''b'') (Val ''c''))]
       (initialize (empty_db True)))) = [1, 2] \<and>
   distinct (issued_task_ids (fst (run (Some ''k'')
       [with_key (POST_tasks (Val ''a'') (Val ''b'') (Val ''c'')),
        with_key (DELETE_task (Some 1)),
        with_key (POST_tasks (Val ''a'') (Val ''b'') (Val ''c''))]
       (initialize (empty_db True)))))"
proof -
  let ?reqs = "[with_key (POST_tasks (Val ''a'') (Val ''b'') (Val ''c'')),
        with_key (DELETE_task (Some 1)),
        with_key (POST_tasks (Val ''a'') (Val ''b'') (Val ''c''))]"
  note rej = post_task_validated [of "Val ''n''" Undefined "Val ''e''" demo_db
      "Some ''k''" ?reqs "initialize (empty_db True)"]
  note acc = post_task_validated [of "Val ''n''" "Val ''d''" "Val ''e''" demo_db
      "Some ''k''" ?reqs "initialize (empty_db True)"]
  have mem: "Undefined \<in> {Undefined, Null, Val ([] :: string)}"
    by simp
  have rejected: "post_task (Val ''n'') Undefined (Val ''e'') demo_db =
     (Response 400 (Message ''Missing required fields: name, description, eta.''), demo_db)"
    using rej [THEN conjunct1] by simp
  have "\<exists>i. fst (post_task (Val ''n'') (Val ''d'') (Val ''e'') demo_db) =
             Response 201 (TaskCreated ''Task created successfully!'' i) \<and>
           tasks (snd (post_task (Val ''n'') (Val ''d'') (Val ''e'') demo_db)) =
             tasks demo_db @ [\<lparr>t_id = i, t_name = ''n'', t_description = ''d'', t_eta = ''e'',
                         t_category_id = None\<rparr>] \<and>
           tasks_seq (snd (post_task (Val ''n'') (Val ''d'') (Val ''e'') demo_db)) = i"
    using acc [THEN conjunct2, THEN conjunct1] by auto
  moreover have "tasks_seq (snd (post_task (Val ''n'') (Val ''d'') (Val ''e'') demo_db)) = 3"
    by (simp add: post_task_created next_rowid_def demo_db_def)
  ultimately have created: "fst (post_task (Val ''n'') (Val ''d'') (Val ''e'') demo_db) =
             Response 201 (TaskCreated ''Task created successfully!'' 3) \<and>
           tasks (snd (post_task (Val ''n'') (Val ''d'') (Val ''e'') demo_db)) =
             tasks demo_db @ [\<lparr>t_id = 3, t_name = ''n'', t_description = ''d'', t_eta = ''e'',
                         t_category_id = None\<rparr>]"
    by auto
  have ids: "issued_task_ids (fst (run (Some ''k'') ?reqs (initialize (empty_db True)))) = [1, 2]"
    by (simp add: app_def api_key_middleware_def with_key_def post_task_created next_rowid_def
        delete_task_route_def select_task_def delete_task_def logged_def
        initialize_def empty_db_def)
  have dist: "distinct (issued_task_ids (fst (run (Some ''k'') ?reqs (initialize (empty_db True)))))"
    using rej [THEN conjunct2, THEN conjunct2, THEN conjunct1] .
  from mem rejected created ids dist show ?thesis by blast
qed

subsection \<open>Deleting a category\<close>

text \<open>An id that no category has: 404, and every table as it was.\<close>

lemma delete_category_route_absent:
  "select_category d i = None \<Longrightarrow>
   fst (delete_category_route i d) = Response 404 (Message ''Category not found.'') \<and>
   same_store d (snd (delete_category_route i d))"
  by (simp add: delete_category_route_def select_logged same_store_logged Let_def)

text \<open>With foreign keys enforced, a category that some task refers to cannot be deleted:
  the \<^verbatim>\<open>DELETE\<close> of line 162 runs before the \<^verbatim>\<open>UPDATE\<close> of line 163 that would clear the
  references, and raises.\<close>

lemma delete_category_route_blocked:
  assumes fk: "foreign_keys d" and c: "select_category d i = Some c"
    and t: "\<exists>t \<in> set (tasks d). t_category_id t = i"
  shows "fst (delete_category_route i d) =
      Response 500 (Uncaught (SqliteError ''FOREIGN KEY constraint failed'')) \<and>
    same_store d (snd (delete_category_route i d))"
proof -
  from c have ex: "\<exists>c \<in> set (categories d). Some (c_id c) = i"
    using select_category_Some_mem by blast
  then have some: "i \<noteq> None" by auto
  have "delete_category i (logged s (logged s' d)) =
      Inl (SqliteError ''FOREIGN KEY constraint failed'')" for s s'
    using fk ex t some by (simp add: delete_category_def logged_fields)
  with c show ?thesis
    by (simp add: delete_category_route_def select_logged same_store_logged2 Let_def)
qed

lemma select_category_Some_not_NaN: "select_category d i = Some c \<Longrightarrow> i \<noteq> None"
  by (cases i) (simp_all add: select_category_def)

lemma delete_category_unblocked:
  "\<not> (foreign_keys d \<and> (\<exists>t \<in> set (tasks d). t_category_id t = i)) \<Longrightarrow>
   delete_category i d = Inr (d\<lparr>categories := filter (\<lambda>c. Some (c_id c) \<noteq> i) (categories d)\<rparr>)"
  unfolding delete_category_def by (rule if_not_P) blast

text \<open>Where the \<^verbatim>\<open>DELETE\<close> goes through (no task refers to the category, or foreign keys are
  not enforced), the handler does what the specification describes.\<close>

lemma delete_category_route_cascade:
  assumes c: "select_category d i = Some c"
    and free: "\<not> (foreign_keys d \<and> (\<exists>t \<in> set (tasks d). t_category_id t = i))"
  shows "fst (delete_category_route i d) = Response 200 (Message ''Category deleted successfully!'') \<and>
    categories (snd (delete_category_route i d)) = filter (\<lambda>c. Some (c_id c) \<noteq> i) (categories d) \<and>
    tasks (snd (delete_category_route i d)) =
      map (\<lambda>t. if t_category_id t = i then t\<lparr>t_category_id := None\<rparr> else t) (tasks d) \<and>
    select_category (snd (delete_category_route i d)) i = None \<and>
    (\<forall>t \<in> set (tasks (snd (delete_category_route i d))). t_category_id t \<noteq> i)"
proof -
  from c have some: "i \<noteq> None"
    by (rule select_category_Some_not_NaN)
  let ?d2 = "logged ''DELETE FROM categories WHERE id = ?''
      (logged ''SELECT * FROM categories WHERE id = ?'' d)"
  have "\<not> (foreign_keys ?d2 \<and> (\<exists>t \<in> set (tasks ?d2). t_category_id t = i))"
    using free by (simp add: logged_fields)
  then have del: "delete_category i ?d2 =
      Inr (?d2\<lparr>categories := filter (\<lambda>c. Some (c_id c) \<noteq> i) (categories ?d2)\<rparr>)"
    by (rule delete_category_unblocked)
  have sel: "select_category (logged ''SELECT * FROM categories WHERE id = ?'' d) i = Some c"
    using c by (simp only: select_logged)
  have res: "delete_category_route i d =
    (Response 200 (Message ''Category deleted successfully!''),
     null_out_category i
       (logged ''UPDATE tasks SET category_id = NULL WHERE category_id = ?''
         (?d2\<lparr>categories := filter (\<lambda>c. Some (c_id c) \<noteq> i) (categories ?d2)\<rparr>)))"
    unfolding delete_category_route_def Let_def sel del by simp
  have cats: "categories (snd (delete_category_route i d)) =
      filter (\<lambda>c. Some (c_id c) \<noteq> i) (categories d)"
    unfolding res by (simp add: null_out_category_def logged_def)
  have tbl: "tasks (snd (delete_category_route i d)) =
      map (\<lambda>t. if t_category_id t = i then t\<lparr>t_category_id := None\<rparr> else t) (tasks d)"
    unfolding res using some by (simp add: null_out_category_def logged_def)
  have gone: "select_category (snd (delete_category_route i d)) i = None"
    unfolding select_category_None_iff cats by simp
  have unref: "\<forall>t \<in> set (tasks (snd (delete_category_route i d))). t_category_id t \<noteq> i"
    unfolding tbl using some by auto
  have st: "fst (delete_category_route i d) = Response 200 (Message ''Category deleted successfully!'')"
    unfolding res by simp
  show ?thesis
    by (rule conjI [OF st conjI [OF cats conjI [OF tbl conjI [OF gone unref]]]])
qed

text \<open>
  Claim C1 says that \<open>deleteCategory(id)\<close>, for every category id in the store, removes
  the category and sets \<open>category_id\<close> to null on every task that refers to it, so that
  afterwards the category is absent from \<open>listCategories\<close> and no task refers to it. The
  run below starts from a fresh database as better-sqlite3 opens it (foreign keys
  enforced): a category is created, a task is created and filed under it, and the
  category is deleted. The deletion is answered with 500, the category is still listed
  and the task still refers to it.
\<close>

theorem delete_category_referenced_blocked:
  "fst (run (Some ''k'')
      [with_key (POST_categories (Val ''home'')),
       with_key (POST_tasks (Val ''a'') (Val ''b'') (Val ''c'')),
       with_key (POST_assign_category (Some 1) (Val 1)),
       with_key (DELETE_category (Some 1)),
       with_key GET_categories]
      (initialize (empty_db True))) =
     [Response 201 (CategoryCreated ''Category created successfully!'' 1),
      Response 201 (TaskCreated ''Task created successfully!'' 1),
      Response 200 (Message ''Aye aye, category assigned successfully!''),
      Response 500 (Uncaught (SqliteError ''FOREIGN KEY constraint failed'')),
      Response 200 (CategoryRows [\<lparr>c_id = 1, c_name = ''home''\<rparr>])] \<and>
   tasks (snd (run (Some ''k'')
      [with_key (POST_categories (Val ''home'')),
       with_key (POST_tasks (Val ''a'') (Val ''b'') (Val ''c'')),
       with_key (POST_assign_category (Some 1) (Val 1)),
       with_key (DELETE_category (Some 1)),
       with_key GET_categories]
      (initialize (empty_db True)))) =
     [\<lparr>t_id = 1, t_name = ''a'', t_description = ''b'', t_eta = ''c'', t_category_id = Some 1\<rparr>]"
  by code_simp

end
